theory Spec2Isabelle
  imports Complex_Main "HOL-Library.Word"
begin

section \<open>Data model of \<^verbatim>\<open>nlp/CythonFuncsPyx.pyx\<close>\<close>

text \<open>
  The kernels receive raw pointers into flat, row-major numpy buffers and index them
  with no bounds check (\<^verbatim>\<open>boundscheck=False\<close>, \<^verbatim>\<open>wraparound=False\<close>). A buffer is
  therefore modelled as a store from element offsets to values: \<open>B p\<close> is the element
  \<^verbatim>\<open>B[p]\<close>, and row \<open>k\<close> of a table of width \<open>vec_dim\<close> is the offsets
  \<open>row, \<dots>, row + vec_dim - 1\<close> with \<open>row\<close> the product the code computes. The model
  takes the buffers passed to one call to be distinct arrays (none overlaps another),
  so each is a store of its own; an offset outside the allocated array, which the code
  would read or write unchecked, is an offset of the store like any other.

  \<^item> \<^verbatim>\<open>REAL_t\<close> (\<^verbatim>\<open>np.float32_t\<close>), \<^verbatim>\<open>float\<close> and \<^verbatim>\<open>double\<close> are modelled by \<^typ>\<open>real\<close>:
    the arithmetic is taken exact, a cast between the two widths is the identity in
    the kernels (the casts of the literals of \<^verbatim>\<open>init\<close> are kept, see there), and \<^verbatim>\<open>exp\<close>, \<^verbatim>\<open>log\<close>, \<^verbatim>\<open>sqrt\<close> of \<^verbatim>\<open>libc.math\<close> are \<^const>\<open>exp\<close>,
    \<^const>\<open>ln\<close> and \<^const>\<open>sqrt\<close>.
  \<^item> \<^verbatim>\<open>UI32_t\<close> (\<^verbatim>\<open>np.uint32_t\<close>) is \<^typ>\<open>32 word\<close>. A product or sum of a \<^verbatim>\<open>UI32_t\<close>
    and a C \<^verbatim>\<open>int\<close> is computed in unsigned 32-bit arithmetic and wraps around; the
    result is then widened (\<^const>\<open>uint\<close>) to the \<^verbatim>\<open>long long\<close> offset.
  \<^item> A C \<^verbatim>\<open>int\<close> (sizes, loop counters, \<^verbatim>\<open>do_grad\<close>) is \<^typ>\<open>int\<close>; the cast
    \<^verbatim>\<open><int>\<close> of a \<^verbatim>\<open>UI32_t\<close> is \<^const>\<open>sint\<close>.
\<close>

type_synonym REAL_t = real
type_synonym UI32_t = "32 word"
type_synonym real_buf = "int \<Rightarrow> REAL_t"
type_synonym key_buf = "int \<Rightarrow> UI32_t"

text \<open>\<^verbatim>\<open>for k in range(n): body\<close> over a C \<^verbatim>\<open>int\<close> counter: no iteration when \<open>n \<le> 0\<close>.\<close>

definition for_range :: "int \<Rightarrow> (int \<Rightarrow> 's \<Rightarrow> 's) \<Rightarrow> 's \<Rightarrow> 's" where
  "for_range n body s = fold body (map int [0..<nat n]) s"

subsection \<open>The bound vector primitives\<close>

text \<open>
  Modelled from the spec: the BLAS routine \<^verbatim>\<open>saxpy\<close> is bound from \<^verbatim>\<open>scipy.linalg.blas\<close>
  and is not part of the source file. The spec gives its contract as
  \<^verbatim>\<open>scaled_accumulate(n, alpha, src, dst)\<close> (dst += alpha*src) over \<open>n\<close> consecutive
  elements (both increments are \<^verbatim>\<open>ONE\<close> at every call site). \<open>X\<close> with \<open>xoff\<close> is the
  pointer \<^verbatim>\<open>&X[xoff]\<close>; the result is the new content of the destination buffer.
\<close>

definition saxpy :: "int \<Rightarrow> REAL_t \<Rightarrow> real_buf \<Rightarrow> int \<Rightarrow> real_buf \<Rightarrow> int \<Rightarrow> real_buf" where
  "saxpy n alpha X xoff Y yoff =
     (\<lambda>p. if yoff \<le> p \<and> p < yoff + n then Y p + alpha * X (xoff + (p - yoff)) else Y p)"

text \<open>
  Modelled from the spec: the dot product \<^verbatim>\<open>dot(n, a, b) -> scalar\<close> of the adapter, the
  value a correctly read \<^verbatim>\<open>sdot\<close> returns. The kernels below take the primitive they
  call (\<^verbatim>\<open>dsdot\<close> in the variants 0, \<^verbatim>\<open>sdot\<close> in the variants 1: the same BLAS routine
  read through two return types) as their first argument, of this type.
\<close>

type_synonym dot_prim = "int \<Rightarrow> real_buf \<Rightarrow> int \<Rightarrow> real_buf \<Rightarrow> int \<Rightarrow> REAL_t"

definition dot :: dot_prim where
  "dot n X xoff Y yoff = (\<Sum>k\<leftarrow>map int [0..<nat n]. X (xoff + k) * Y (yoff + k))"

text \<open>The constants of the module.\<close>

definition MAX_HSM_KEY :: UI32_t where
  "MAX_HSM_KEY = 12345678"

definition ONEF :: REAL_t where
  "ONEF = 1.0"

definition ADA_EPS :: REAL_t where
  "ADA_EPS = 0.001"

definition ADA_RHO :: REAL_t where
  "ADA_RHO = 0.98"

section \<open>\<^verbatim>\<open>W2V_FF_BP\<close>: the two-table pairwise logistic kernel\<close>

text \<open>
  The buffers a call mutates: the gradient accumulators of the two tables and of the
  bias, and the loss accumulator \<^verbatim>\<open>L\<close> (its element 0). The tables \<^verbatim>\<open>Wa\<close>, \<^verbatim>\<open>Wc\<close>, the
  bias \<^verbatim>\<open>b\<close> and the index and sign arrays are only read.
\<close>

record w2v_bufs =
  w2v_dWa :: real_buf
  w2v_dWc :: real_buf
  w2v_db :: real_buf
  w2v_L :: real_buf

definition cy_w2v_ff_bp0 ::
  "dot_prim \<Rightarrow> int \<Rightarrow> key_buf \<Rightarrow> key_buf \<Rightarrow> int \<Rightarrow> key_buf \<Rightarrow> real_buf \<Rightarrow>
   real_buf \<Rightarrow> real_buf \<Rightarrow> real_buf \<Rightarrow> int \<Rightarrow> int \<Rightarrow> w2v_bufs \<Rightarrow> w2v_bufs" where
  "cy_w2v_ff_bp0 dsdot sp_size sp_idx anc_keys pn_size pn_keys pn_sign Wa Wc b do_grad vec_dim st =
     for_range sp_size (\<lambda>sp_i st.
       let i = sint (sp_idx sp_i);
           a_key = anc_keys i;
           row1 = uint (a_key * word_of_int vec_dim)
       in for_range pn_size (\<lambda>j st.
            let c_key = pn_keys (i * pn_size + j);
                row2 = uint (c_key * word_of_int vec_dim);
                neg_label = - 1.0 * pn_sign (i * pn_size + j);
                y = dsdot vec_dim Wa row1 Wc row2 + b (uint c_key);
                exp_pns_y = exp (neg_label * y);
                st = st\<lparr>w2v_L := (w2v_L st)(0 := w2v_L st 0 + ln (1.0 + exp_pns_y))\<rparr>
            in if do_grad = 1 then
                 let g = neg_label * (exp_pns_y / (1.0 + exp_pns_y));
                     st = st\<lparr>w2v_dWc := saxpy vec_dim g Wa row1 (w2v_dWc st) row2\<rparr>;
                     st = st\<lparr>w2v_dWa := saxpy vec_dim g Wc row2 (w2v_dWa st) row1\<rparr>
                 in st\<lparr>w2v_db := (w2v_db st)(uint c_key := w2v_db st (uint c_key) + g)\<rparr>
               else st) st) st"

definition cy_w2v_ff_bp1 ::
  "dot_prim \<Rightarrow> int \<Rightarrow> key_buf \<Rightarrow> key_buf \<Rightarrow> int \<Rightarrow> key_buf \<Rightarrow> real_buf \<Rightarrow>
   real_buf \<Rightarrow> real_buf \<Rightarrow> real_buf \<Rightarrow> int \<Rightarrow> int \<Rightarrow> w2v_bufs \<Rightarrow> w2v_bufs" where
  "cy_w2v_ff_bp1 sdot sp_size sp_idx anc_keys pn_size pn_keys pn_sign Wa Wc b do_grad vec_dim st =
     for_range sp_size (\<lambda>sp_i st.
       let i = sint (sp_idx sp_i);
           a_key = anc_keys i;
           row1 = uint (a_key * word_of_int vec_dim)
       in for_range pn_size (\<lambda>j st.
            let c_key = pn_keys (i * pn_size + j);
                row2 = uint (c_key * word_of_int vec_dim);
                neg_label = - 1.0 * pn_sign (i * pn_size + j);
                y = sdot vec_dim Wa row1 Wc row2 + b (uint c_key);
                exp_pns_y = exp (neg_label * y);
                st = st\<lparr>w2v_L := (w2v_L st)(0 := w2v_L st 0 + ln (1.0 + exp_pns_y))\<rparr>
            in if do_grad = 1 then
                 let g = neg_label * (exp_pns_y / (1.0 + exp_pns_y));
                     st = st\<lparr>w2v_dWc := saxpy vec_dim g Wa row1 (w2v_dWc st) row2\<rparr>;
                     st = st\<lparr>w2v_dWa := saxpy vec_dim g Wc row2 (w2v_dWa st) row1\<rparr>
                 in st\<lparr>w2v_db := (w2v_db st)(uint c_key := w2v_db st (uint c_key) + g)\<rparr>
               else st) st) st"

section \<open>\<^verbatim>\<open>NSL_FF_BP\<close>: the shared-table pairwise logistic kernel\<close>

text \<open>
  The buffers the shared-table and the auto-contrastive kernels mutate: the gradient
  accumulators \<^verbatim>\<open>dX\<close>, \<^verbatim>\<open>dW\<close>, \<^verbatim>\<open>db\<close> and the loss matrix \<^verbatim>\<open>L\<close>.
\<close>

record nsl_bufs =
  nsl_dX :: real_buf
  nsl_dW :: real_buf
  nsl_db :: real_buf
  nsl_L :: real_buf

definition cy_nsl_ff_bp0 ::
  "dot_prim \<Rightarrow> int \<Rightarrow> key_buf \<Rightarrow> int \<Rightarrow> key_buf \<Rightarrow> real_buf \<Rightarrow>
   real_buf \<Rightarrow> real_buf \<Rightarrow> real_buf \<Rightarrow> int \<Rightarrow> int \<Rightarrow> nsl_bufs \<Rightarrow> nsl_bufs" where
  "cy_nsl_ff_bp0 dsdot sp_size sp_idx pn_size pn_keys pn_sign X W b do_grad vec_dim st =
     for_range sp_size (\<lambda>sp_i st.
       let X_key = sp_idx sp_i;
           row1 = uint (X_key * word_of_int vec_dim)
       in for_range pn_size (\<lambda>j st.
            let W_key = pn_keys (uint (X_key * word_of_int pn_size + word_of_int j))
            in if W_key < MAX_HSM_KEY then
                 let row2 = uint (W_key * word_of_int vec_dim);
                     neg_label = - 1.0 * pn_sign (uint (X_key * word_of_int pn_size + word_of_int j));
                     y = dsdot vec_dim X row1 W row2 + b (uint W_key);
                     exp_pns_y = exp (neg_label * y);
                     st = st\<lparr>nsl_L := (nsl_L st)
                            (uint (X_key * word_of_int pn_size + word_of_int j) := ln (1.0 + exp_pns_y))\<rparr>
                 in if do_grad = 1 then
                      let g = neg_label * (exp_pns_y / (1.0 + exp_pns_y));
                          st = st\<lparr>nsl_dW := saxpy vec_dim g X row1 (nsl_dW st) row2\<rparr>;
                          st = st\<lparr>nsl_dX := saxpy vec_dim g W row2 (nsl_dX st) row1\<rparr>
                      in st\<lparr>nsl_db := (nsl_db st)(uint W_key := nsl_db st (uint W_key) + g)\<rparr>
                    else st
               else st) st) st"

definition cy_nsl_ff_bp1 ::
  "dot_prim \<Rightarrow> int \<Rightarrow> key_buf \<Rightarrow> int \<Rightarrow> key_buf \<Rightarrow> real_buf \<Rightarrow>
   real_buf \<Rightarrow> real_buf \<Rightarrow> real_buf \<Rightarrow> int \<Rightarrow> int \<Rightarrow> nsl_bufs \<Rightarrow> nsl_bufs" where
  "cy_nsl_ff_bp1 sdot sp_size sp_idx pn_size pn_keys pn_sign X W b do_grad vec_dim st =
     for_range sp_size (\<lambda>sp_i st.
       let X_key = sp_idx sp_i;
           row1 = uint (X_key * word_of_int vec_dim)
       in for_range pn_size (\<lambda>j st.
            let W_key = pn_keys (uint (X_key * word_of_int pn_size + word_of_int j))
            in if W_key < MAX_HSM_KEY then
                 let row2 = uint (W_key * word_of_int vec_dim);
                     neg_label = - 1.0 * pn_sign (uint (X_key * word_of_int pn_size + word_of_int j));
                     y = sdot vec_dim X row1 W row2 + b (uint W_key);
                     exp_pns_y = exp (neg_label * y);
                     st = st\<lparr>nsl_L := (nsl_L st)
                            (uint (X_key * word_of_int pn_size + word_of_int j) := ln (1.0 + exp_pns_y))\<rparr>
                 in if do_grad = 1 then
                      let g = neg_label * (exp_pns_y / (1.0 + exp_pns_y));
                          st = st\<lparr>nsl_dW := saxpy vec_dim g X row1 (nsl_dW st) row2\<rparr>;
                          st = st\<lparr>nsl_dX := saxpy vec_dim g W row2 (nsl_dX st) row1\<rparr>
                      in st\<lparr>nsl_db := (nsl_db st)(uint W_key := nsl_db st (uint W_key) + g)\<rparr>
                    else st
               else st) st) st"

section \<open>The auto-contrastive layer kernel\<close>

text \<open>
  The C locals \<^verbatim>\<open>Wk_p\<close>, \<^verbatim>\<open>r_p\<close> and \<^verbatim>\<open>f_p\<close> are assigned in the iteration \<open>j = 0\<close> and
  read in the later iterations, so they are carried through both loops. They are
  declared without a value: what they hold on entry is the argument \<open>loc\<close> of the kernel.
\<close>

record acl_locals =
  loc_Wk_p :: UI32_t
  loc_r_p :: int
  loc_f_p :: REAL_t

text \<open>The gradient coefficients \<^verbatim>\<open>g_yp\<close> and \<^verbatim>\<open>g_yn\<close> of one negative slot.\<close>

definition acl_g_yp :: "REAL_t \<Rightarrow> REAL_t \<Rightarrow> REAL_t \<Rightarrow> REAL_t \<Rightarrow> REAL_t" where
  "acl_g_yp a c f_n denom = - (a * (c + f_n)) / denom"

definition acl_g_yn :: "REAL_t \<Rightarrow> REAL_t \<Rightarrow> REAL_t \<Rightarrow> REAL_t" where
  "acl_g_yn a f_n denom = (a * f_n) / denom"

definition cy_acl_ff_bp0 ::
  "dot_prim \<Rightarrow> int \<Rightarrow> key_buf \<Rightarrow> int \<Rightarrow> key_buf \<Rightarrow> real_buf \<Rightarrow>
   real_buf \<Rightarrow> real_buf \<Rightarrow> real_buf \<Rightarrow> int \<Rightarrow> int \<Rightarrow> acl_locals \<Rightarrow> nsl_bufs \<Rightarrow> nsl_bufs" where
  "cy_acl_ff_bp0 dsdot sp_size sp_idx pn_size pn_keys pn_sign X W b do_grad vec_dim loc st =
     (let a = 1.0; k = 1.0; c = 0.1
      in snd (for_range sp_size (\<lambda>sp_i (loc, st).
           let Xk = sp_idx sp_i;
               row1 = uint (Xk * word_of_int vec_dim)
           in for_range pn_size (\<lambda>j (loc, st).
                if j = 0 then
                  let Wk_p = pn_keys (uint (Xk * word_of_int pn_size + word_of_int j));
                      r_p = uint (Wk_p * word_of_int vec_dim);
                      y_p = dsdot vec_dim X row1 W r_p;
                      b_p = b (uint Wk_p);
                      f_p = exp (a * y_p + b_p)
                  in (\<lparr>loc_Wk_p = Wk_p, loc_r_p = r_p, loc_f_p = f_p\<rparr>, st)
                else
                  let Wk_n = pn_keys (uint (Xk * word_of_int pn_size + word_of_int j));
                      r_n = uint (Wk_n * word_of_int vec_dim);
                      y_n = dsdot vec_dim X row1 W r_n;
                      b_n = b (uint Wk_n);
                      f_n = k * exp (a * y_n + b_n);
                      denom = loc_f_p loc + f_n + c;
                      st = st\<lparr>nsl_L := (nsl_L st)
                             (uint (Xk * word_of_int pn_size + word_of_int j) := - ln (loc_f_p loc / denom))\<rparr>
                  in if do_grad = 1 then
                       let g_yp = acl_g_yp a c f_n denom;
                           g_yn = acl_g_yn a f_n denom;
                           st = st\<lparr>nsl_dX := saxpy vec_dim g_yp W (loc_r_p loc) (nsl_dX st) row1\<rparr>;
                           st = st\<lparr>nsl_dX := saxpy vec_dim g_yn W r_n (nsl_dX st) row1\<rparr>;
                           st = st\<lparr>nsl_dW := saxpy vec_dim g_yp X row1 (nsl_dW st) (loc_r_p loc)\<rparr>;
                           st = st\<lparr>nsl_dW := saxpy vec_dim g_yn X row1 (nsl_dW st) r_n\<rparr>;
                           g_bp = - (c + f_n) / denom;
                           g_bn = f_n / denom;
                           st = st\<lparr>nsl_db := (nsl_db st)
                                  (uint (loc_Wk_p loc) := nsl_db st (uint (loc_Wk_p loc)) + g_bp)\<rparr>
                       in (loc, st\<lparr>nsl_db := (nsl_db st)(uint Wk_n := nsl_db st (uint Wk_n) + g_bn)\<rparr>)
                     else (loc, st)) (loc, st)) (loc, st)))"

definition cy_acl_ff_bp1 ::
  "dot_prim \<Rightarrow> int \<Rightarrow> key_buf \<Rightarrow> int \<Rightarrow> key_buf \<Rightarrow> real_buf \<Rightarrow>
   real_buf \<Rightarrow> real_buf \<Rightarrow> real_buf \<Rightarrow> int \<Rightarrow> int \<Rightarrow> acl_locals \<Rightarrow> nsl_bufs \<Rightarrow> nsl_bufs" where
  "cy_acl_ff_bp1 sdot sp_size sp_idx pn_size pn_keys pn_sign X W b do_grad vec_dim loc st =
     (let a = 1.0; k = 1.0; c = 0.1
      in snd (for_range sp_size (\<lambda>sp_i (loc, st).
           let Xk = sp_idx sp_i;
               row1 = uint (Xk * word_of_int vec_dim)
           in for_range pn_size (\<lambda>j (loc, st).
                if j = 0 then
                  let Wk_p = pn_keys (uint (Xk * word_of_int pn_size + word_of_int j));
                      r_p = uint (Wk_p * word_of_int vec_dim);
                      y_p = sdot vec_dim X row1 W r_p;
                      b_p = b (uint Wk_p);
                      f_p = exp (a * y_p + b_p)
                  in (\<lparr>loc_Wk_p = Wk_p, loc_r_p = r_p, loc_f_p = f_p\<rparr>, st)
                else
                  let Wk_n = pn_keys (uint (Xk * word_of_int pn_size + word_of_int j));
                      r_n = uint (Wk_n * word_of_int vec_dim);
                      y_n = sdot vec_dim X row1 W r_n;
                      b_n = b (uint Wk_n);
                      f_n = k * exp (a * y_n + b_n);
                      denom = loc_f_p loc + f_n + c;
                      st = st\<lparr>nsl_L := (nsl_L st)
                             (uint (Xk * word_of_int pn_size + word_of_int j) := - ln (loc_f_p loc / denom))\<rparr>
                  in if do_grad = 1 then
                       let g_yp = acl_g_yp a c f_n denom;
                           g_yn = acl_g_yn a f_n denom;
                           st = st\<lparr>nsl_dX := saxpy vec_dim g_yp W (loc_r_p loc) (nsl_dX st) row1\<rparr>;
                           st = st\<lparr>nsl_dX := saxpy vec_dim g_yn W r_n (nsl_dX st) row1\<rparr>;
                           st = st\<lparr>nsl_dW := saxpy vec_dim g_yp X row1 (nsl_dW st) (loc_r_p loc)\<rparr>;
                           st = st\<lparr>nsl_dW := saxpy vec_dim g_yn X row1 (nsl_dW st) r_n\<rparr>;
                           g_bp = - (c + f_n) / denom;
                           g_bn = f_n / denom;
                           st = st\<lparr>nsl_db := (nsl_db st)
                                  (uint (loc_Wk_p loc) := nsl_db st (uint (loc_Wk_p loc)) + g_bp)\<rparr>
                       in (loc, st\<lparr>nsl_db := (nsl_db st)(uint Wk_n := nsl_db st (uint Wk_n) + g_bn)\<rparr>)
                     else (loc, st)) (loc, st)) (loc, st)))"

section \<open>\<^verbatim>\<open>AG_UPDATE_2D\<close> and \<^verbatim>\<open>AG_UPDATE_1D\<close>: the sparse adaptive update\<close>

record ag_bufs =
  ag_W :: real_buf
  ag_dW :: real_buf
  ag_mW :: real_buf

definition cy_ag_update_2d ::
  "int \<Rightarrow> key_buf \<Rightarrow> key_buf \<Rightarrow> REAL_t \<Rightarrow> int \<Rightarrow> ag_bufs \<Rightarrow> ag_bufs" where
  "cy_ag_update_2d sp_size sp_idx row_idx alpha vec_dim st =
     for_range sp_size (\<lambda>sp_i st.
       let i = sp_idx sp_i;
           row_key = row_idx (uint i);
           row_ptr = uint (row_key * word_of_int vec_dim)
       in for_range vec_dim (\<lambda>v_i st.
            let st = st\<lparr>ag_mW := (ag_mW st)(row_ptr + v_i :=
                       (ADA_RHO * ag_mW st (row_ptr + v_i)) +
                       ((1 - ADA_RHO) * ag_dW st (row_ptr + v_i) * ag_dW st (row_ptr + v_i)))\<rparr>;
                st = st\<lparr>ag_W := (ag_W st)(row_ptr + v_i := ag_W st (row_ptr + v_i) -
                       alpha * (ag_dW st (row_ptr + v_i) / (sqrt (ag_mW st (row_ptr + v_i)) + ADA_EPS)))\<rparr>
            in st\<lparr>ag_dW := (ag_dW st)(row_ptr + v_i := 0.0)\<rparr>) st) st"

definition cy_ag_update_1d ::
  "int \<Rightarrow> key_buf \<Rightarrow> key_buf \<Rightarrow> REAL_t \<Rightarrow> ag_bufs \<Rightarrow> ag_bufs" where
  "cy_ag_update_1d sp_size sp_idx row_idx alpha st =
     for_range sp_size (\<lambda>sp_i st.
       let i = sp_idx sp_i;
           row_key = uint (row_idx (uint i));
           st = st\<lparr>ag_mW := (ag_mW st)(row_key :=
                  (ADA_RHO * ag_mW st row_key) +
                  ((1 - ADA_RHO) * ag_dW st row_key * ag_dW st row_key))\<rparr>;
           st = st\<lparr>ag_W := (ag_W st)(row_key := ag_W st row_key -
                  alpha * (ag_dW st row_key / (sqrt (ag_mW st row_key) + ADA_EPS)))\<rparr>
       in st\<lparr>ag_dW := (ag_dW st)(row_key := 0.0)\<rparr>) st"

section \<open>\<^verbatim>\<open>LUT_BP\<close>: the scatter-accumulate operator\<close>

record lut_bufs =
  lut_dLdY :: real_buf
  lut_dW :: real_buf

text \<open>One iteration of the update loop of \<^verbatim>\<open>cy_lut_bp\<close>.\<close>

definition lut_bp_step :: "key_buf \<Rightarrow> key_buf \<Rightarrow> int \<Rightarrow> int \<Rightarrow> lut_bufs \<Rightarrow> lut_bufs" where
  "lut_bp_step sp_idx row_idx vec_dim sp_i st =
     (let i = sp_idx sp_i;
          j = row_idx (uint i);
          row1 = uint (i * word_of_int vec_dim);
          row2 = uint (j * word_of_int vec_dim)
      in st\<lparr>lut_dW := saxpy vec_dim ONEF (lut_dLdY st) row1 (lut_dW st) row2\<rparr>)"

definition cy_lut_bp :: "int \<Rightarrow> key_buf \<Rightarrow> key_buf \<Rightarrow> int \<Rightarrow> lut_bufs \<Rightarrow> lut_bufs" where
  "cy_lut_bp sp_size sp_idx row_idx vec_dim st =
     for_range sp_size (lut_bp_step sp_idx row_idx vec_dim) st"

text \<open>
  What minibatch item \<open>sp_i\<close> adds to the element at offset \<open>p\<close> of \<^verbatim>\<open>dW\<close>: the element of
  its \<^verbatim>\<open>dLdY\<close> row that lies at the same position in the row, when \<open>p\<close> is in the
  destination row, and nothing otherwise.
\<close>

definition lut_contrib :: "key_buf \<Rightarrow> key_buf \<Rightarrow> int \<Rightarrow> real_buf \<Rightarrow> int \<Rightarrow> int \<Rightarrow> REAL_t" where
  "lut_contrib sp_idx row_idx vec_dim dLdY p sp_i =
     (let i = sp_idx sp_i;
          row1 = uint (i * word_of_int vec_dim);
          row2 = uint (row_idx (uint i) * word_of_int vec_dim)
      in if row2 \<le> p \<and> p < row2 + vec_dim then dLdY (row1 + (p - row2)) else 0)"

section \<open>\<^verbatim>\<open>init\<close>: the precision-dispatch bootstrap\<close>

text \<open>
  The module holds three kernel pointers, unset until \<^verbatim>\<open>init\<close> binds them to the
  variants 0 (\<^verbatim>\<open>dsdot\<close>, the primitive read as returning a double) or to the variants 1
  (\<^verbatim>\<open>sdot\<close>, read as returning a float).
\<close>

datatype variant = Variant0 | Variant1

record module_ptrs =
  cy_w2v_ff_bp :: "variant option"
  cy_nsl_ff_bp :: "variant option"
  cy_acl_ff_bp :: "variant option"

datatype py_error = AssertionError

text \<open>
  The self-test stores what the call returns in the double \<^verbatim>\<open>d_res\<close> and reads it twice:
  as the double itself, and through \<^verbatim>\<open>p_res = <float *>&d_res\<close> as the float
  \<^verbatim>\<open>p_res[0]\<close>. The two readings of the stored bytes are the two fields of the raw
  result; the primitive under test is the argument \<open>dsdot_raw\<close> of \<open>init\<close>.
\<close>

record raw_result =
  as_double :: real
  as_float :: real

type_synonym raw_dot_prim = "int \<Rightarrow> real_buf \<Rightarrow> int \<Rightarrow> real_buf \<Rightarrow> int \<Rightarrow> raw_result"


text \<open>
  \<^verbatim>\<open>init\<close> returns 0 or 1 with the pointers bound. In the last branch \<^verbatim>\<open>assert False\<close>
  raises \<^verbatim>\<open>AssertionError\<close> when the interpreter runs with assertions enabled (the
  argument \<open>assertions\<close>; they are disabled by \<^verbatim>\<open>python -O\<close>); with assertions disabled the
  statement is skipped and \<^verbatim>\<open>return 2\<close> follows, the pointers left as they were.
\<close>

definition init ::
  "bool \<Rightarrow> (real \<Rightarrow> real) \<Rightarrow> raw_dot_prim \<Rightarrow> module_ptrs \<Rightarrow> py_error + (int \<times> module_ptrs)" where
  "init assertions to_float dsdot_raw m =
     (let x = (\<lambda>_. 0)(0 := to_float 10.0);
          y = (\<lambda>_. 0)(0 := to_float 0.01);
          expected = to_float 0.1;
          size = 1;
          res = dsdot_raw size x 0 y 0;
          d_res = as_double res;
          p_res = as_float res
      in if \<bar>d_res - expected\<bar> < 0.0001 then
           Inr (0, m\<lparr>cy_w2v_ff_bp := Some Variant0, cy_nsl_ff_bp := Some Variant0,
                     cy_acl_ff_bp := Some Variant0\<rparr>)
         else if \<bar>p_res - expected\<bar> < 0.0001 then
           Inr (1, m\<lparr>cy_w2v_ff_bp := Some Variant1, cy_nsl_ff_bp := Some Variant1,
                     cy_acl_ff_bp := Some Variant1\<rparr>)
         else if assertions then Inl AssertionError
         else Inr (2, m))"



text \<open>
  The Python entry points call the kernel through the module's pointer. The arguments
  are the sizes and pointers the entry point extracts from its numpy arrays; a call
  through an unset pointer does not return (\<open>None\<close>).
\<close>

definition w2v_ff_bp_pyx ::
  "module_ptrs \<Rightarrow> dot_prim \<Rightarrow> dot_prim \<Rightarrow> int \<Rightarrow> key_buf \<Rightarrow> key_buf \<Rightarrow> int \<Rightarrow> key_buf \<Rightarrow>
   real_buf \<Rightarrow> real_buf \<Rightarrow> real_buf \<Rightarrow> real_buf \<Rightarrow> int \<Rightarrow> int \<Rightarrow> w2v_bufs \<Rightarrow> w2v_bufs option" where
  "w2v_ff_bp_pyx m dsdot sdot sp_size sp_idx anc_keys pn_size pn_keys pn_sign Wa Wc b
       do_grad vec_dim st =
     (case cy_w2v_ff_bp m of
        None \<Rightarrow> None
      | Some Variant0 \<Rightarrow> Some (cy_w2v_ff_bp0 dsdot sp_size sp_idx anc_keys pn_size pn_keys pn_sign
                               Wa Wc b do_grad vec_dim st)
      | Some Variant1 \<Rightarrow> Some (cy_w2v_ff_bp1 sdot sp_size sp_idx anc_keys pn_size pn_keys pn_sign
                               Wa Wc b do_grad vec_dim st))"

section \<open>The formulas of the specification\<close>

text \<open>
  The definitions of this section state what a call is to add to, or store in, each
  buffer, in the words of the specification: the loss and gradient formulas of a slot,
  summed or stored over the slots of the call. Which rows, keys and entries a slot
  resolves to is the addressing of the code. The theorems compare the kernels with
  these definitions.
\<close>

subsection \<open>Pairwise logistic loss\<close>

text \<open>
  One resolved (anchor, target) pair: the offsets of the anchor row and of the target
  row, the target key (the index of its bias), the target sign and the score
  \<open>y = dot(anchor_row, target_row) + bias[target_key]\<close>.
\<close>

record pair =
  p_anchor :: int
  p_target :: int
  p_key :: int
  p_sign :: real
  p_y :: real

text \<open>
  Loss \<open>log(1 + exp(-sign * y))\<close> and gradient coefficient
  \<open>g = -sign * exp_term / (1 + exp_term)\<close> of a pair; \<open>g * anchor_row\<close> goes into the
  target's gradient row, \<open>g * target_row\<close> into the anchor's, \<open>g\<close> into the target's bias
  gradient.
\<close>

definition pair_loss :: "pair \<Rightarrow> real" where
  "pair_loss s = ln (1 + exp (- p_sign s * p_y s))"

definition pair_g :: "pair \<Rightarrow> real" where
  "pair_g s = - p_sign s * exp (- p_sign s * p_y s) / (1 + exp (- p_sign s * p_y s))"

definition target_grad :: "int \<Rightarrow> real_buf \<Rightarrow> pair \<Rightarrow> int \<Rightarrow> real" where
  "target_grad vec_dim A s p =
     (if p_target s \<le> p \<and> p < p_target s + vec_dim
      then pair_g s * A (p_anchor s + (p - p_target s)) else 0)"

definition anchor_grad :: "int \<Rightarrow> real_buf \<Rightarrow> pair \<Rightarrow> int \<Rightarrow> real" where
  "anchor_grad vec_dim T s p =
     (if p_anchor s \<le> p \<and> p < p_anchor s + vec_dim
      then pair_g s * T (p_target s + (p - p_anchor s)) else 0)"

definition bias_grad :: "pair \<Rightarrow> int \<Rightarrow> real" where
  "bias_grad s k = (if k = p_key s then pair_g s else 0)"

text \<open>The slots of a call in the order the loops visit them: (position in the index set, column).\<close>

definition slots :: "int \<Rightarrow> int \<Rightarrow> (int \<times> int) list" where
  "slots sp_size pn_size =
     concat (map (\<lambda>sp_i. map (Pair sp_i) (map int [0..<nat pn_size])) (map int [0..<nat sp_size]))"

text \<open>The pair of a slot of the two-table kernel.\<close>

definition w2v_pair ::
  "dot_prim \<Rightarrow> key_buf \<Rightarrow> key_buf \<Rightarrow> int \<Rightarrow> key_buf \<Rightarrow> real_buf \<Rightarrow> real_buf \<Rightarrow> real_buf \<Rightarrow>
   real_buf \<Rightarrow> int \<Rightarrow> int \<times> int \<Rightarrow> pair" where
  "w2v_pair dotp sp_idx anc_keys pn_size pn_keys pn_sign Wa Wc b vec_dim =
     (\<lambda>(sp_i, j).
        let i = sint (sp_idx sp_i);
            anchor_row = uint (anc_keys i * word_of_int vec_dim);
            target_key = pn_keys (i * pn_size + j);
            target_row = uint (target_key * word_of_int vec_dim)
        in \<lparr>p_anchor = anchor_row, p_target = target_row, p_key = uint target_key,
            p_sign = pn_sign (i * pn_size + j),
            p_y = dotp vec_dim Wa anchor_row Wc target_row + b (uint target_key)\<rparr>)"


text \<open>
  The key, the loss entry and the pair of a slot of the shared-table kernel; the live
  slots are those whose key is below the sentinel threshold.
\<close>

definition nsl_key :: "key_buf \<Rightarrow> int \<Rightarrow> key_buf \<Rightarrow> int \<times> int \<Rightarrow> UI32_t" where
  "nsl_key sp_idx pn_size pn_keys = (\<lambda>(sp_i, j). pn_keys (uint (sp_idx sp_i * word_of_int pn_size + word_of_int j)))"

definition nsl_idx :: "key_buf \<Rightarrow> int \<Rightarrow> int \<times> int \<Rightarrow> int" where
  "nsl_idx sp_idx pn_size = (\<lambda>(sp_i, j). uint (sp_idx sp_i * word_of_int pn_size + word_of_int j))"

definition nsl_pair ::
  "dot_prim \<Rightarrow> key_buf \<Rightarrow> int \<Rightarrow> key_buf \<Rightarrow> real_buf \<Rightarrow> real_buf \<Rightarrow> real_buf \<Rightarrow>
   real_buf \<Rightarrow> int \<Rightarrow> int \<times> int \<Rightarrow> pair" where
  "nsl_pair dotp sp_idx pn_size pn_keys pn_sign X W b vec_dim =
     (\<lambda>(sp_i, j).
        let anchor_row = uint (sp_idx sp_i * word_of_int vec_dim);
            target_key = nsl_key sp_idx pn_size pn_keys (sp_i, j);
            target_row = uint (target_key * word_of_int vec_dim)
        in \<lparr>p_anchor = anchor_row, p_target = target_row, p_key = uint target_key,
            p_sign = pn_sign (nsl_idx sp_idx pn_size (sp_i, j)),
            p_y = dotp vec_dim X anchor_row W target_row + b (uint target_key)\<rparr>)"

definition live_slots :: "int \<Rightarrow> key_buf \<Rightarrow> int \<Rightarrow> key_buf \<Rightarrow> (int \<times> int) list" where
  "live_slots sp_size sp_idx pn_size pn_keys =
     filter (\<lambda>x. nsl_key sp_idx pn_size pn_keys x < MAX_HSM_KEY) (slots sp_size pn_size)"

text \<open>
  A buffer after the assignments \<open>B[k x] = v x\<close> for \<open>x\<close> along \<open>xs\<close>: an entry holds the
  value of the last assignment to it, or its old value when there is none.
\<close>

definition last_write :: "('x \<Rightarrow> int) \<Rightarrow> ('x \<Rightarrow> real) \<Rightarrow> 'x list \<Rightarrow> real_buf \<Rightarrow> real_buf" where
  "last_write k v xs B =
     (\<lambda>p. case find (\<lambda>x. k x = p) (rev xs) of None \<Rightarrow> B p | Some x \<Rightarrow> v x)"

subsection \<open>Contrastive ratio\<close>

text \<open>
  One negative slot of an anchor row: the offsets of the input row \<open>x\<close>, of the positive
  row and of the negative row, the two keys, the loss entry, and \<open>f_pos\<close>, \<open>f_neg\<close>.
\<close>

record acl_slot =
  s_x :: int
  s_pos :: int
  s_neg :: int
  s_pos_key :: int
  s_neg_key :: int
  s_idx :: int
  s_f_pos :: real
  s_f_neg :: real

definition acl_denom :: "acl_slot \<Rightarrow> real" where
  "acl_denom s = s_f_pos s + s_f_neg s + 0.1"

definition acl_loss :: "acl_slot \<Rightarrow> real" where
  "acl_loss s = - ln (s_f_pos s / acl_denom s)"

definition acl_g_pos :: "acl_slot \<Rightarrow> real" where
  "acl_g_pos s = acl_g_yp 1.0 0.1 (s_f_neg s) (acl_denom s)"

definition acl_g_neg :: "acl_slot \<Rightarrow> real" where
  "acl_g_neg s = acl_g_yn 1.0 (s_f_neg s) (acl_denom s)"

definition acl_dX_grad :: "int \<Rightarrow> real_buf \<Rightarrow> acl_slot \<Rightarrow> int \<Rightarrow> real" where
  "acl_dX_grad vec_dim W s p =
     (if s_x s \<le> p \<and> p < s_x s + vec_dim
      then acl_g_pos s * W (s_pos s + (p - s_x s)) + acl_g_neg s * W (s_neg s + (p - s_x s))
      else 0)"

definition acl_dW_grad :: "int \<Rightarrow> real_buf \<Rightarrow> acl_slot \<Rightarrow> int \<Rightarrow> real" where
  "acl_dW_grad vec_dim X s p =
     (if s_pos s \<le> p \<and> p < s_pos s + vec_dim then acl_g_pos s * X (s_x s + (p - s_pos s)) else 0) +
     (if s_neg s \<le> p \<and> p < s_neg s + vec_dim then acl_g_neg s * X (s_x s + (p - s_neg s)) else 0)"

definition acl_db_grad :: "acl_slot \<Rightarrow> int \<Rightarrow> real" where
  "acl_db_grad s k =
     (if k = s_pos_key s then - (0.1 + s_f_neg s) / acl_denom s else 0) +
     (if k = s_neg_key s then s_f_neg s / acl_denom s else 0)"

text \<open>What slot 0 of an anchor row leaves in the locals: the positive key, its row, \<open>f_pos\<close>.\<close>

definition acl_seed ::
  "dot_prim \<Rightarrow> key_buf \<Rightarrow> int \<Rightarrow> key_buf \<Rightarrow> real_buf \<Rightarrow> real_buf \<Rightarrow> real_buf \<Rightarrow> int \<Rightarrow> int \<Rightarrow> acl_locals" where
  "acl_seed dotp sp_idx pn_size pn_keys X W b vec_dim sp_i =
     (let x = uint (sp_idx sp_i * word_of_int vec_dim);
          pos_key = pn_keys (uint (sp_idx sp_i * word_of_int pn_size + 0));
          w_pos = uint (pos_key * word_of_int vec_dim)
      in \<lparr>loc_Wk_p = pos_key, loc_r_p = w_pos,
          loc_f_p = exp (1.0 * dotp vec_dim X x W w_pos + b (uint pos_key))\<rparr>)"

definition acl_slot_of ::
  "dot_prim \<Rightarrow> key_buf \<Rightarrow> int \<Rightarrow> key_buf \<Rightarrow> real_buf \<Rightarrow> real_buf \<Rightarrow> real_buf \<Rightarrow> int \<Rightarrow>
   int \<times> int \<Rightarrow> acl_slot" where
  "acl_slot_of dotp sp_idx pn_size pn_keys X W b vec_dim =
     (\<lambda>(sp_i, j).
        let x = uint (sp_idx sp_i * word_of_int vec_dim);
            pos = acl_seed dotp sp_idx pn_size pn_keys X W b vec_dim sp_i;
            neg_key = pn_keys (uint (sp_idx sp_i * word_of_int pn_size + word_of_int j));
            w_neg = uint (neg_key * word_of_int vec_dim)
        in \<lparr>s_x = x, s_pos = loc_r_p pos, s_neg = w_neg,
            s_pos_key = uint (loc_Wk_p pos), s_neg_key = uint neg_key,
            s_idx = uint (sp_idx sp_i * word_of_int pn_size + word_of_int j),
            s_f_pos = loc_f_p pos,
            s_f_neg = 1.0 * exp (1.0 * dotp vec_dim X x W w_neg + b (uint neg_key))\<rparr>)"

text \<open>The negative slots of a call (columns 1 and above), in the order of the loops.\<close>

definition neg_slots :: "int \<Rightarrow> int \<Rightarrow> (int \<times> int) list" where
  "neg_slots sp_size pn_size =
     concat (map (\<lambda>sp_i. map (Pair sp_i) (map int [1..<nat pn_size])) (map int [0..<nat sp_size]))"

subsection \<open>Sparse adaptive update\<close>

text \<open>
  The recurrence on one element, as (moment, param, grad), with \<open>rho = 0.98\<close> and
  \<open>eps = 0.001\<close>; the element of a state at an offset; the offsets a call addresses, in
  order, once for each time it addresses them.
\<close>

definition ag_rule :: "real \<Rightarrow> real \<times> real \<times> real \<Rightarrow> real \<times> real \<times> real" where
  "ag_rule alpha = (\<lambda>(moment, param, grad).
     let moment' = 0.98 * moment + (1 - 0.98) * grad\<^sup>2
     in (moment', param - alpha * grad / (sqrt moment' + 0.001), 0))"

definition ag_elem :: "ag_bufs \<Rightarrow> int \<Rightarrow> real \<times> real \<times> real" where
  "ag_elem st e = (ag_mW st e, ag_W st e, ag_dW st e)"

definition addressed_1d :: "int \<Rightarrow> key_buf \<Rightarrow> key_buf \<Rightarrow> int list" where
  "addressed_1d sp_size sp_idx row_idx =
     map (\<lambda>sp_i. uint (row_idx (uint (sp_idx sp_i)))) (map int [0..<nat sp_size])"

definition addressed_2d :: "int \<Rightarrow> key_buf \<Rightarrow> key_buf \<Rightarrow> int \<Rightarrow> int list" where
  "addressed_2d sp_size sp_idx row_idx vec_dim =
     map (\<lambda>(sp_i, v_i). uint (row_idx (uint (sp_idx sp_i)) * word_of_int vec_dim) + v_i)
       (slots sp_size vec_dim)"

section \<open>Loop bodies\<close>

text \<open>
  The body of the inner loop of the auto-contrastive kernel, and the negative slot
  \<open>(sp_i, j)\<close> run with the locals that slot 0 of its row leaves.
\<close>

definition acl_body ::
  "dot_prim \<Rightarrow> int \<Rightarrow> key_buf \<Rightarrow> real_buf \<Rightarrow> real_buf \<Rightarrow> real_buf \<Rightarrow> int \<Rightarrow> int \<Rightarrow>
   UI32_t \<Rightarrow> int \<Rightarrow> acl_locals \<times> nsl_bufs \<Rightarrow> acl_locals \<times> nsl_bufs" where
  "acl_body dotp pn_size pn_keys X W b do_grad vec_dim Xk j =
     (\<lambda>(loc, st).
                if j = 0 then
                  (\<lparr>loc_Wk_p = pn_keys (uint (Xk * word_of_int pn_size + word_of_int j)),
                    loc_r_p = uint (pn_keys (uint (Xk * word_of_int pn_size + word_of_int j)) * word_of_int vec_dim),
                    loc_f_p = exp (1.0 * dotp vec_dim X (uint (Xk * word_of_int vec_dim)) W
                       (uint (pn_keys (uint (Xk * word_of_int pn_size + word_of_int j)) * word_of_int vec_dim))
                       + b (uint (pn_keys (uint (Xk * word_of_int pn_size + word_of_int j)))))\<rparr>, st)
                else
                  let row1 = uint (Xk * word_of_int vec_dim);
                      a = 1.0; k = 1.0; c = 0.1;
                      Wk_n = pn_keys (uint (Xk * word_of_int pn_size + word_of_int j));
                      r_n = uint (Wk_n * word_of_int vec_dim);
                      y_n = dotp vec_dim X row1 W r_n;
                      b_n = b (uint Wk_n);
                      f_n = k * exp (a * y_n + b_n);
                      denom = loc_f_p loc + f_n + c;
                      st = st\<lparr>nsl_L := (nsl_L st)
                             (uint (Xk * word_of_int pn_size + word_of_int j) := - ln (loc_f_p loc / denom))\<rparr>
                  in if do_grad = 1 then
                       let g_yp = acl_g_yp a c f_n denom;
                           g_yn = acl_g_yn a f_n denom;
                           st = st\<lparr>nsl_dX := saxpy vec_dim g_yp W (loc_r_p loc) (nsl_dX st) row1\<rparr>;
                           st = st\<lparr>nsl_dX := saxpy vec_dim g_yn W r_n (nsl_dX st) row1\<rparr>;
                           st = st\<lparr>nsl_dW := saxpy vec_dim g_yp X row1 (nsl_dW st) (loc_r_p loc)\<rparr>;
                           st = st\<lparr>nsl_dW := saxpy vec_dim g_yn X row1 (nsl_dW st) r_n\<rparr>;
                           g_bp = - (c + f_n) / denom;
                           g_bn = f_n / denom;
                           st = st\<lparr>nsl_db := (nsl_db st)
                                  (uint (loc_Wk_p loc) := nsl_db st (uint (loc_Wk_p loc)) + g_bp)\<rparr>
                       in (loc, st\<lparr>nsl_db := (nsl_db st)(uint Wk_n := nsl_db st (uint Wk_n) + g_bn)\<rparr>)
                     else (loc, st))"

definition acl_step ::
  "dot_prim \<Rightarrow> key_buf \<Rightarrow> int \<Rightarrow> key_buf \<Rightarrow> real_buf \<Rightarrow> real_buf \<Rightarrow> real_buf \<Rightarrow> int \<Rightarrow> int \<Rightarrow>
   int \<times> int \<Rightarrow> nsl_bufs \<Rightarrow> nsl_bufs" where
  "acl_step dotp sp_idx pn_size pn_keys X W b do_grad vec_dim =
     (\<lambda>(sp_i, j) st. snd (acl_body dotp pn_size pn_keys X W b do_grad vec_dim (sp_idx sp_i) j
        (acl_seed dotp sp_idx pn_size pn_keys X W b vec_dim sp_i, st)))"

section \<open>Loops that accumulate\<close>

lemma fold_invariant:
  assumes "\<And>x s. P s \<Longrightarrow> P (f x s)" and "P s"
  shows "P (fold f xs s)"
  using assms(2) by (induction xs arbitrary: s) (simp_all add: assms(1))

lemma fold_additive:
  fixes buf :: "'s \<Rightarrow> int \<Rightarrow> real"
  assumes inv: "\<And>x s. P s \<Longrightarrow> P (f x s)"
    and step: "\<And>x s. P s \<Longrightarrow> buf (f x s) p = buf s p + d x"
    and init: "P s"
  shows "buf (fold f xs s) p = buf s p + (\<Sum>x\<leftarrow>xs. d x)"
  using init
proof (induction xs arbitrary: s)
  case Nil
  show ?case by simp
next
  case (Cons x xs)
  have "buf (fold f xs (f x s)) p = buf (f x s) p + (\<Sum>y\<leftarrow>xs. d y)"
    by (rule Cons.IH) (rule inv [OF Cons.prems])
  then show ?case
    by (simp add: step [OF Cons.prems])
qed

lemma fold_nested:
  "fold (\<lambda>x. fold (f x) ys) xs s = fold (\<lambda>(x, y). f x y) (concat (map (\<lambda>x. map (Pair x) ys) xs)) s"
  by (induction xs arbitrary: s) (simp_all add: fold_map o_def)

lemma for_range_nested:
  "for_range n (\<lambda>i. for_range m (f i)) s = fold (\<lambda>(i, j). f i j) (slots n m) s"
  unfolding for_range_def slots_def by (rule fold_nested)

lemma fold_unchanged:
  assumes "\<And>x s. buf (f x s) = buf s"
  shows "buf (fold f xs s) = buf s"
  by (induction xs arbitrary: s) (simp_all add: assms)

lemma last_write_snoc:
  "last_write k v (xs @ [x]) B = (last_write k v xs B)(k x := v x)"
  by (auto simp add: last_write_def fun_eq_iff)

lemma fold_assign_guarded:
  assumes "\<And>x s. buf (f x s) = (if w x then (buf s)(k x := v x) else buf s)"
  shows "buf (fold f xs s) = last_write k v (filter w xs) (buf s)"
proof (induction xs rule: rev_induct)
  case Nil
  show ?case by (simp add: last_write_def)
next
  case (snoc x xs)
  then show ?case by (auto simp add: assms last_write_snoc fun_eq_iff)
qed

lemma sum_list_guard:
  fixes d :: "'x \<Rightarrow> real"
  shows "(\<Sum>x\<leftarrow>xs. if w x then d x else 0) = (\<Sum>x\<leftarrow>filter w xs. d x)"
  by (induction xs) simp_all

lemma fold_assign_on:
  assumes "\<And>x s. x \<in> set xs \<Longrightarrow> buf (f x s) = (buf s)(k x := v x)"
  shows "buf (fold f xs s) = last_write k v xs (buf s)"
  using assms
proof (induction xs rule: rev_induct)
  case Nil
  show ?case by (simp add: last_write_def)
next
  case (snoc x xs)
  then show ?case by (auto simp add: last_write_snoc fun_eq_iff)
qed

lemma fold_additive_on:
  fixes buf :: "'s \<Rightarrow> int \<Rightarrow> real"
  assumes "\<And>x s. x \<in> set xs \<Longrightarrow> buf (f x s) p = buf s p + d x"
  shows "buf (fold f xs s) p = buf s p + (\<Sum>x\<leftarrow>xs. d x)"
  using assms by (induction xs arbitrary: s) simp_all

lemma neg_slots_nonzero: "(i, j) \<in> set (neg_slots n m) \<Longrightarrow> j \<noteq> 0"
  by (auto simp add: neg_slots_def)

lemma fold_keep_fst:
  assumes keep: "\<And>j loc st. j \<in> set js \<Longrightarrow> fst (F j (loc, st)) = loc"
  shows "fold F js (loc, st) = (loc, fold (\<lambda>j st. snd (F j (loc, st))) js st)"
  using keep
proof (induction js arbitrary: st)
  case Nil
  show ?case by simp
next
  case (Cons j js)
  define st' where "st' = snd (F j (loc, st))"
  have e: "F j (loc, st) = (loc, st')"
    by (rule prod_eqI) (simp_all add: Cons.prems st'_def)
  have "fold F js (loc, st') = (loc, fold (\<lambda>j st. snd (F j (loc, st))) js st')"
    by (rule Cons.IH) (simp add: Cons.prems)
  then show ?case
    by (simp add: e)
qed

lemma for_range_seeded:
  assumes seed: "\<And>loc st. F 0 (loc, st) = (sd, st)"
    and keep: "\<And>j loc st. j \<noteq> 0 \<Longrightarrow> fst (F j (loc, st)) = loc"
  shows "snd (for_range m F (loc, st)) = fold (\<lambda>j st. snd (F j (sd, st))) (map int [1..<nat m]) st"
proof (cases "m \<le> 0")
  case True
  then show ?thesis by (simp add: for_range_def)
next
  case False
  then have "[0..<nat m] = 0 # [1..<nat m]"
    by (simp add: upt_conv_Cons)
  then have "for_range m F (loc, st) = fold F (map int [1..<nat m]) (sd, st)"
    by (simp add: for_range_def seed)
  also have "\<dots> = (sd, fold (\<lambda>j st. snd (F j (sd, st))) (map int [1..<nat m]) st)"
    by (rule fold_keep_fst) (auto intro: keep)
  finally show ?thesis by simp
qed

lemma seeded_loops:
  assumes seed: "\<And>i loc st. F i 0 (loc, st) = (sd i, st)"
    and keep: "\<And>i j loc st. j \<noteq> 0 \<Longrightarrow> fst (F i j (loc, st)) = loc"
  shows "snd (for_range n (\<lambda>i. for_range m (F i)) (loc, st)) =
         fold (\<lambda>(i, j) st. snd (F i j (sd i, st))) (neg_slots n m) st"
proof -
  have "snd (fold (\<lambda>i. for_range m (F i)) is (loc, st)) =
        fold (\<lambda>i. fold (\<lambda>j st. snd (F i j (sd i, st))) (map int [1..<nat m])) is st" for "is"
  proof (induction "is" arbitrary: loc st)
    case Nil
    show ?case by simp
  next
    case (Cons i "is")
    obtain loc' st' where r: "for_range m (F i) (loc, st) = (loc', st')"
      by (cases "for_range m (F i) (loc, st)")
    have "st' = fold (\<lambda>j st. snd (F i j (sd i, st))) (map int [1..<nat m]) st"
      using for_range_seeded [of "F i" "sd i" m loc st, OF seed keep] r by simp
    then show ?case
      using Cons.IH [of loc' st'] r by simp
  qed
  then show ?thesis
    unfolding neg_slots_def fold_nested [symmetric] by (simp add: for_range_def)
qed



section \<open>The variants 1 are the variants 0 on the other reading of the primitive\<close>

lemma w2v1_eq: "cy_w2v_ff_bp1 = cy_w2v_ff_bp0"
  by (intro ext) (simp add: cy_w2v_ff_bp1_def cy_w2v_ff_bp0_def)

lemma nsl1_eq: "cy_nsl_ff_bp1 = cy_nsl_ff_bp0"
  by (intro ext) (simp add: cy_nsl_ff_bp1_def cy_nsl_ff_bp0_def)

lemma acl1_eq: "cy_acl_ff_bp1 = cy_acl_ff_bp0"
  by (intro ext) (simp add: cy_acl_ff_bp1_def cy_acl_ff_bp0_def)

section \<open>Two-table kernel: what a call leaves in each buffer\<close>

lemma w2v0_L:
  "w2v_L (cy_w2v_ff_bp0 dsdot sp_size sp_idx anc_keys pn_size pn_keys pn_sign Wa Wc b do_grad vec_dim st) p =
     w2v_L st p + (\<Sum>x\<leftarrow>slots sp_size pn_size. if p = 0 then pair_loss (w2v_pair dsdot sp_idx anc_keys pn_size pn_keys pn_sign Wa Wc b vec_dim x) else 0)"
  unfolding cy_w2v_ff_bp0_def Let_def for_range_nested
  by (rule fold_additive [where P = "\<lambda>_. True"])
     (auto simp add: Let_def w2v_pair_def pair_loss_def)

lemma w2v0_dWc:
  "w2v_dWc (cy_w2v_ff_bp0 dsdot sp_size sp_idx anc_keys pn_size pn_keys pn_sign Wa Wc b 1 vec_dim st) p =
     w2v_dWc st p + (\<Sum>x\<leftarrow>slots sp_size pn_size. target_grad vec_dim Wa (w2v_pair dsdot sp_idx anc_keys pn_size pn_keys pn_sign Wa Wc b vec_dim x) p)"
  unfolding cy_w2v_ff_bp0_def Let_def for_range_nested
  by (rule fold_additive [where P = "\<lambda>_. True"])
     (auto simp add: Let_def saxpy_def target_grad_def w2v_pair_def pair_g_def)

lemma w2v0_dWa:
  "w2v_dWa (cy_w2v_ff_bp0 dsdot sp_size sp_idx anc_keys pn_size pn_keys pn_sign Wa Wc b 1 vec_dim st) p =
     w2v_dWa st p + (\<Sum>x\<leftarrow>slots sp_size pn_size. anchor_grad vec_dim Wc (w2v_pair dsdot sp_idx anc_keys pn_size pn_keys pn_sign Wa Wc b vec_dim x) p)"
  unfolding cy_w2v_ff_bp0_def Let_def for_range_nested
  by (rule fold_additive [where P = "\<lambda>_. True"])
     (auto simp add: Let_def saxpy_def anchor_grad_def w2v_pair_def pair_g_def)

lemma w2v0_db:
  "w2v_db (cy_w2v_ff_bp0 dsdot sp_size sp_idx anc_keys pn_size pn_keys pn_sign Wa Wc b 1 vec_dim st) p =
     w2v_db st p + (\<Sum>x\<leftarrow>slots sp_size pn_size. bias_grad (w2v_pair dsdot sp_idx anc_keys pn_size pn_keys pn_sign Wa Wc b vec_dim x) p)"
  unfolding cy_w2v_ff_bp0_def Let_def for_range_nested
  by (rule fold_additive [where P = "\<lambda>_. True"])
     (auto simp add: Let_def bias_grad_def w2v_pair_def pair_g_def)

lemma w2v0_nograd:
  assumes "do_grad \<noteq> 1"
  shows "w2v_dWa (cy_w2v_ff_bp0 dsdot sp_size sp_idx anc_keys pn_size pn_keys pn_sign Wa Wc b do_grad vec_dim st) = w2v_dWa st"
    and "w2v_dWc (cy_w2v_ff_bp0 dsdot sp_size sp_idx anc_keys pn_size pn_keys pn_sign Wa Wc b do_grad vec_dim st) = w2v_dWc st"
    and "w2v_db (cy_w2v_ff_bp0 dsdot sp_size sp_idx anc_keys pn_size pn_keys pn_sign Wa Wc b do_grad vec_dim st) = w2v_db st"
  unfolding cy_w2v_ff_bp0_def Let_def for_range_nested
  by (rule fold_unchanged; simp add: assms split_beta)+

section \<open>Shared-table kernel: what a call leaves in each buffer\<close>

lemma nsl0_L:
  "nsl_L (cy_nsl_ff_bp0 dsdot sp_size sp_idx pn_size pn_keys pn_sign X W b do_grad vec_dim st) =
     last_write (nsl_idx sp_idx pn_size)
       (\<lambda>x. pair_loss (nsl_pair dsdot sp_idx pn_size pn_keys pn_sign X W b vec_dim x))
       (live_slots sp_size sp_idx pn_size pn_keys) (nsl_L st)"
  unfolding cy_nsl_ff_bp0_def Let_def for_range_nested live_slots_def
  by (rule fold_assign_guarded)
     (auto simp add: Let_def nsl_pair_def nsl_key_def nsl_idx_def pair_loss_def)

lemma nsl0_dW:
  "nsl_dW (cy_nsl_ff_bp0 dsdot sp_size sp_idx pn_size pn_keys pn_sign X W b 1 vec_dim st) p =
     nsl_dW st p + (\<Sum>x\<leftarrow>live_slots sp_size sp_idx pn_size pn_keys.
        target_grad vec_dim X (nsl_pair dsdot sp_idx pn_size pn_keys pn_sign X W b vec_dim x) p)"
  unfolding cy_nsl_ff_bp0_def Let_def for_range_nested live_slots_def sum_list_guard [symmetric]
  by (rule fold_additive [where P = "\<lambda>_. True"])
     (auto simp add: Let_def saxpy_def target_grad_def nsl_pair_def nsl_key_def nsl_idx_def pair_g_def)

lemma nsl0_dX:
  "nsl_dX (cy_nsl_ff_bp0 dsdot sp_size sp_idx pn_size pn_keys pn_sign X W b 1 vec_dim st) p =
     nsl_dX st p + (\<Sum>x\<leftarrow>live_slots sp_size sp_idx pn_size pn_keys.
        anchor_grad vec_dim W (nsl_pair dsdot sp_idx pn_size pn_keys pn_sign X W b vec_dim x) p)"
  unfolding cy_nsl_ff_bp0_def Let_def for_range_nested live_slots_def sum_list_guard [symmetric]
  by (rule fold_additive [where P = "\<lambda>_. True"])
     (auto simp add: Let_def saxpy_def anchor_grad_def nsl_pair_def nsl_key_def nsl_idx_def pair_g_def)

lemma nsl0_db:
  "nsl_db (cy_nsl_ff_bp0 dsdot sp_size sp_idx pn_size pn_keys pn_sign X W b 1 vec_dim st) p =
     nsl_db st p + (\<Sum>x\<leftarrow>live_slots sp_size sp_idx pn_size pn_keys.
        bias_grad (nsl_pair dsdot sp_idx pn_size pn_keys pn_sign X W b vec_dim x) p)"
  unfolding cy_nsl_ff_bp0_def Let_def for_range_nested live_slots_def sum_list_guard [symmetric]
  by (rule fold_additive [where P = "\<lambda>_. True"])
     (auto simp add: Let_def bias_grad_def nsl_pair_def nsl_key_def nsl_idx_def pair_g_def)

lemma nsl0_nograd:
  assumes "do_grad \<noteq> 1"
  shows "nsl_dX (cy_nsl_ff_bp0 dsdot sp_size sp_idx pn_size pn_keys pn_sign X W b do_grad vec_dim st) = nsl_dX st"
    and "nsl_dW (cy_nsl_ff_bp0 dsdot sp_size sp_idx pn_size pn_keys pn_sign X W b do_grad vec_dim st) = nsl_dW st"
    and "nsl_db (cy_nsl_ff_bp0 dsdot sp_size sp_idx pn_size pn_keys pn_sign X W b do_grad vec_dim st) = nsl_db st"
  unfolding cy_nsl_ff_bp0_def Let_def for_range_nested
  by (rule fold_unchanged; simp add: assms split_beta)+

section \<open>Auto-contrastive kernel: what a call leaves in each buffer\<close>

lemma acl0_loops:
  "cy_acl_ff_bp0 dsdot sp_size sp_idx pn_size pn_keys pn_sign X W b do_grad vec_dim loc st =
   snd (for_range sp_size (\<lambda>sp_i. for_range pn_size
          (acl_body dsdot pn_size pn_keys X W b do_grad vec_dim (sp_idx sp_i))) (loc, st))"
  unfolding cy_acl_ff_bp0_def acl_body_def Let_def case_prod_eta by (rule refl)

lemma acl_body_seed:
  "acl_body dotp pn_size pn_keys X W b do_grad vec_dim (sp_idx sp_i) 0 (loc, st) =
     (acl_seed dotp sp_idx pn_size pn_keys X W b vec_dim sp_i, st)"
  by (simp add: acl_body_def acl_seed_def Let_def)

lemma acl_body_keep:
  "j \<noteq> 0 \<Longrightarrow> fst (acl_body dotp pn_size pn_keys X W b do_grad vec_dim Xk j (loc, st)) = loc"
  by (simp add: acl_body_def Let_def)

lemma acl0_fold:
  "cy_acl_ff_bp0 dsdot sp_size sp_idx pn_size pn_keys pn_sign X W b do_grad vec_dim loc st =
   fold (acl_step dsdot sp_idx pn_size pn_keys X W b do_grad vec_dim) (neg_slots sp_size pn_size) st"
  unfolding acl0_loops acl_step_def
  by (rule seeded_loops) (simp_all add: acl_body_seed acl_body_keep)

lemma acl_step_L:
  "j \<noteq> 0 \<Longrightarrow>
   nsl_L (acl_step dotp sp_idx pn_size pn_keys X W b do_grad vec_dim (sp_i, j) st) =
     (nsl_L st)(s_idx (acl_slot_of dotp sp_idx pn_size pn_keys X W b vec_dim (sp_i, j)) :=
        acl_loss (acl_slot_of dotp sp_idx pn_size pn_keys X W b vec_dim (sp_i, j)))"
  by (simp add: acl_step_def acl_body_def acl_slot_of_def acl_seed_def acl_loss_def acl_denom_def Let_def)

lemma acl_step_dX:
  "j \<noteq> 0 \<Longrightarrow>
   nsl_dX (acl_step dotp sp_idx pn_size pn_keys X W b 1 vec_dim (sp_i, j) st) p =
     nsl_dX st p + acl_dX_grad vec_dim W (acl_slot_of dotp sp_idx pn_size pn_keys X W b vec_dim (sp_i, j)) p"
  by (simp add: acl_step_def acl_body_def acl_slot_of_def acl_seed_def acl_dX_grad_def
      acl_g_pos_def acl_g_neg_def acl_denom_def saxpy_def Let_def)

lemma acl_step_dW:
  "j \<noteq> 0 \<Longrightarrow>
   nsl_dW (acl_step dotp sp_idx pn_size pn_keys X W b 1 vec_dim (sp_i, j) st) p =
     nsl_dW st p + acl_dW_grad vec_dim X (acl_slot_of dotp sp_idx pn_size pn_keys X W b vec_dim (sp_i, j)) p"
  by (simp add: acl_step_def acl_body_def acl_slot_of_def acl_seed_def acl_dW_grad_def
      acl_g_pos_def acl_g_neg_def acl_denom_def saxpy_def Let_def)

lemma acl_step_db:
  "j \<noteq> 0 \<Longrightarrow>
   nsl_db (acl_step dotp sp_idx pn_size pn_keys X W b 1 vec_dim (sp_i, j) st) p =
     nsl_db st p + acl_db_grad (acl_slot_of dotp sp_idx pn_size pn_keys X W b vec_dim (sp_i, j)) p"
  by (simp add: acl_step_def acl_body_def acl_slot_of_def acl_seed_def acl_db_grad_def
      acl_denom_def Let_def)

lemma acl_step_nograd:
  assumes "do_grad \<noteq> 1"
  shows "nsl_dX (acl_step dotp sp_idx pn_size pn_keys X W b do_grad vec_dim x st) = nsl_dX st"
    and "nsl_dW (acl_step dotp sp_idx pn_size pn_keys X W b do_grad vec_dim x st) = nsl_dW st"
    and "nsl_db (acl_step dotp sp_idx pn_size pn_keys X W b do_grad vec_dim x st) = nsl_db st"
  by (simp_all add: assms acl_step_def acl_body_def Let_def split_beta)

lemma acl0_L:
  "nsl_L (cy_acl_ff_bp0 dsdot sp_size sp_idx pn_size pn_keys pn_sign X W b do_grad vec_dim loc st) =
     last_write (\<lambda>x. s_idx (acl_slot_of dsdot sp_idx pn_size pn_keys X W b vec_dim x))
       (\<lambda>x. acl_loss (acl_slot_of dsdot sp_idx pn_size pn_keys X W b vec_dim x))
       (neg_slots sp_size pn_size) (nsl_L st)"
  unfolding acl0_fold
  by (rule fold_assign_on) (auto simp add: acl_step_L dest: neg_slots_nonzero)

lemma acl0_dX:
  "nsl_dX (cy_acl_ff_bp0 dsdot sp_size sp_idx pn_size pn_keys pn_sign X W b 1 vec_dim loc st) p =
     nsl_dX st p + (\<Sum>x\<leftarrow>neg_slots sp_size pn_size.
        acl_dX_grad vec_dim W (acl_slot_of dsdot sp_idx pn_size pn_keys X W b vec_dim x) p)"
  unfolding acl0_fold
  by (rule fold_additive_on) (auto simp add: acl_step_dX dest: neg_slots_nonzero)

lemma acl0_dW:
  "nsl_dW (cy_acl_ff_bp0 dsdot sp_size sp_idx pn_size pn_keys pn_sign X W b 1 vec_dim loc st) p =
     nsl_dW st p + (\<Sum>x\<leftarrow>neg_slots sp_size pn_size.
        acl_dW_grad vec_dim X (acl_slot_of dsdot sp_idx pn_size pn_keys X W b vec_dim x) p)"
  unfolding acl0_fold
  by (rule fold_additive_on) (auto simp add: acl_step_dW dest: neg_slots_nonzero)

lemma acl0_db:
  "nsl_db (cy_acl_ff_bp0 dsdot sp_size sp_idx pn_size pn_keys pn_sign X W b 1 vec_dim loc st) p =
     nsl_db st p + (\<Sum>x\<leftarrow>neg_slots sp_size pn_size.
        acl_db_grad (acl_slot_of dsdot sp_idx pn_size pn_keys X W b vec_dim x) p)"
  unfolding acl0_fold
  by (rule fold_additive_on) (auto simp add: acl_step_db dest: neg_slots_nonzero)

lemma acl0_nograd:
  assumes "do_grad \<noteq> 1"
  shows "nsl_dX (cy_acl_ff_bp0 dsdot sp_size sp_idx pn_size pn_keys pn_sign X W b do_grad vec_dim loc st) = nsl_dX st"
    and "nsl_dW (cy_acl_ff_bp0 dsdot sp_size sp_idx pn_size pn_keys pn_sign X W b do_grad vec_dim loc st) = nsl_dW st"
    and "nsl_db (cy_acl_ff_bp0 dsdot sp_size sp_idx pn_size pn_keys pn_sign X W b do_grad vec_dim loc st) = nsl_db st"
  unfolding acl0_fold
  by (rule fold_unchanged; simp add: assms acl_step_nograd)+

section \<open>Scatter-accumulate: properties\<close>

lemma lut_bp_step_dLdY: "lut_dLdY (lut_bp_step sp_idx row_idx vec_dim sp_i st) = lut_dLdY st"
  by (simp add: lut_bp_step_def Let_def)

lemma lut_bp_step_dW:
  "lut_dLdY st = D \<Longrightarrow>
   lut_dW (lut_bp_step sp_idx row_idx vec_dim sp_i st) p =
     lut_dW st p + lut_contrib sp_idx row_idx vec_dim D p sp_i"
  by (simp add: lut_bp_step_def lut_contrib_def saxpy_def ONEF_def Let_def)

lemma cy_lut_bp_dLdY: "lut_dLdY (cy_lut_bp sp_size sp_idx row_idx vec_dim st) = lut_dLdY st"
  unfolding cy_lut_bp_def for_range_def
  by (rule fold_invariant [where P = "\<lambda>s. lut_dLdY s = lut_dLdY st"])
     (simp_all add: lut_bp_step_dLdY)

lemma cy_lut_bp_dW:
  "lut_dW (cy_lut_bp sp_size sp_idx row_idx vec_dim st) p =
     lut_dW st p +
     (\<Sum>sp_i\<leftarrow>map int [0..<nat sp_size]. lut_contrib sp_idx row_idx vec_dim (lut_dLdY st) p sp_i)"
  unfolding cy_lut_bp_def for_range_def
  by (rule fold_additive [where P = "\<lambda>s. lut_dLdY s = lut_dLdY st"])
     (simp_all add: lut_bp_step_dLdY lut_bp_step_dW)

text \<open>
  C9. Scatter-accumulate: after a call of \<^verbatim>\<open>cy_lut_bp\<close>, every element of \<^verbatim>\<open>dW\<close> is its
  value before the call plus the sum, over all selected minibatch items \<open>sp_i\<close>, of what
  the \<^verbatim>\<open>dLdY\<close> row of item \<^verbatim>\<open>sp_idx[sp_i]\<close> contributes to it through the row
  \<^verbatim>\<open>row_idx[sp_idx[sp_i]]\<close> (items that share a destination row add up, none overwrites
  another), and \<^verbatim>\<open>dLdY\<close> is unchanged.
\<close>

theorem cy_lut_bp_scatter_accumulate:
  "lut_dLdY (cy_lut_bp sp_size sp_idx row_idx vec_dim st) = lut_dLdY st \<and>
   lut_dW (cy_lut_bp sp_size sp_idx row_idx vec_dim st) p =
     lut_dW st p +
     (\<Sum>sp_i\<leftarrow>map int [0..<nat sp_size]. lut_contrib sp_idx row_idx vec_dim (lut_dLdY st) p sp_i)"
  using cy_lut_bp_dLdY cy_lut_bp_dW by blast

theorem cy_lut_bp_scatter_accumulate_witness:
  "lut_dW (cy_lut_bp 2 (\<lambda>k. word_of_int k) (\<lambda>_. 3) 2
      \<lparr>lut_dLdY = (\<lambda>p. of_int p + 1), lut_dW = (\<lambda>_. 10)\<rparr>) 6 = 14 \<and>
   lut_dLdY (cy_lut_bp 2 (\<lambda>k. word_of_int k) (\<lambda>_. 3) 2
      \<lparr>lut_dLdY = (\<lambda>p. of_int p + 1), lut_dW = (\<lambda>_. 10)\<rparr>) = (\<lambda>p. of_int p + 1)"
  using cy_lut_bp_scatter_accumulate [of 2 "\<lambda>k. word_of_int k" "\<lambda>_. 3" 2
      "\<lparr>lut_dLdY = (\<lambda>p. of_int p + 1), lut_dW = (\<lambda>_. 10)\<rparr>" 6]
  by (simp add: lut_contrib_def Let_def upt_rec)

section \<open>The two-table kernel computes the pairwise logistic loss and its gradients\<close>

lemma w2v0_L_upd:
  "w2v_L (cy_w2v_ff_bp0 dsdot sp_size sp_idx anc_keys pn_size pn_keys pn_sign Wa Wc b do_grad vec_dim st) =
     (w2v_L st)(0 := w2v_L st 0 +
        (\<Sum>x\<leftarrow>slots sp_size pn_size.
           pair_loss (w2v_pair dsdot sp_idx anc_keys pn_size pn_keys pn_sign Wa Wc b vec_dim x)))"
  by (rule ext) (simp add: w2v0_L)

lemma w2v0_dWc_any:
  "w2v_dWc (cy_w2v_ff_bp0 dsdot sp_size sp_idx anc_keys pn_size pn_keys pn_sign Wa Wc b do_grad vec_dim st) p =
     w2v_dWc st p +
     (if do_grad = 1
      then \<Sum>x\<leftarrow>slots sp_size pn_size.
             target_grad vec_dim Wa (w2v_pair dsdot sp_idx anc_keys pn_size pn_keys pn_sign Wa Wc b vec_dim x) p
      else 0)"
  by (cases "do_grad = 1") (simp_all add: w2v0_dWc w2v0_nograd)

lemma w2v0_dWa_any:
  "w2v_dWa (cy_w2v_ff_bp0 dsdot sp_size sp_idx anc_keys pn_size pn_keys pn_sign Wa Wc b do_grad vec_dim st) p =
     w2v_dWa st p +
     (if do_grad = 1
      then \<Sum>x\<leftarrow>slots sp_size pn_size.
             anchor_grad vec_dim Wc (w2v_pair dsdot sp_idx anc_keys pn_size pn_keys pn_sign Wa Wc b vec_dim x) p
      else 0)"
  by (cases "do_grad = 1") (simp_all add: w2v0_dWa w2v0_nograd)

lemma w2v0_db_any:
  "w2v_db (cy_w2v_ff_bp0 dsdot sp_size sp_idx anc_keys pn_size pn_keys pn_sign Wa Wc b do_grad vec_dim st) k =
     w2v_db st k +
     (if do_grad = 1
      then \<Sum>x\<leftarrow>slots sp_size pn_size.
             bias_grad (w2v_pair dsdot sp_idx anc_keys pn_size pn_keys pn_sign Wa Wc b vec_dim x) k
      else 0)"
  by (cases "do_grad = 1") (simp_all add: w2v0_db w2v0_nograd)

text \<open>
  C1. Two-table pairwise logistic kernel: a call of the kernel, in either variant
  (\<^verbatim>\<open>cy_w2v_ff_bp0\<close> on \<^verbatim>\<open>dsdot\<close>, \<^verbatim>\<open>cy_w2v_ff_bp1\<close> on \<^verbatim>\<open>sdot\<close>), visits every slot
  (selected row, target column) once; for each it takes the score
  \<open>y = dot(anchor_row, target_row) + bias[target_key]\<close> and adds \<open>log(1 + exp(-sign * y))\<close>
  to the scalar loss \<^verbatim>\<open>L[0]\<close>, whatever \<^verbatim>\<open>do_grad\<close> is, and leaves the other elements of
  \<^verbatim>\<open>L\<close> alone. With gradients requested (\<^verbatim>\<open>do_grad = 1\<close>) it adds, with
  \<open>g = -sign * exp_term / (1 + exp_term)\<close>, \<open>g * anchor_row\<close> to the target's row of \<^verbatim>\<open>dWc\<close>,
  \<open>g * target_row\<close> to the anchor's row of \<^verbatim>\<open>dWa\<close> and \<open>g\<close> to the target's entry of \<^verbatim>\<open>db\<close>,
  and nothing else to them; for any other \<^verbatim>\<open>do_grad\<close> it adds nothing. For sign \<open>+1\<close> the
  loss of a pair is \<open>log(1 + exp(-y))\<close>, for sign \<open>-1\<close> it is \<open>log(1 + exp(y))\<close>. The Python
  entry point \<^verbatim>\<open>w2v_ff_bp_pyx\<close> returns what the variant bound to the module's pointer
  computes: the variant 0 on \<^verbatim>\<open>dsdot\<close>, the variant 1 on \<^verbatim>\<open>sdot\<close>; through an unset
  pointer it does not return.
\<close>

theorem cy_w2v_ff_bp0_pairwise_logistic:
  "let pr = w2v_pair dsdot sp_idx anc_keys pn_size pn_keys pn_sign Wa Wc b vec_dim;
       pr' = w2v_pair sdot sp_idx anc_keys pn_size pn_keys pn_sign Wa Wc b vec_dim;
       sl = slots sp_size pn_size;
       st0 = cy_w2v_ff_bp0 dsdot sp_size sp_idx anc_keys pn_size pn_keys pn_sign Wa Wc b do_grad vec_dim st;
       st1 = cy_w2v_ff_bp0 dsdot sp_size sp_idx anc_keys pn_size pn_keys pn_sign Wa Wc b 1 vec_dim st;
       sv0 = cy_w2v_ff_bp1 sdot sp_size sp_idx anc_keys pn_size pn_keys pn_sign Wa Wc b do_grad vec_dim st
   in w2v_L st0 0 = w2v_L st 0 + (\<Sum>x\<leftarrow>sl. pair_loss (pr x)) \<and>
      w2v_dWc st1 p = w2v_dWc st p + (\<Sum>x\<leftarrow>sl. target_grad vec_dim Wa (pr x) p) \<and>
      w2v_dWa st1 p = w2v_dWa st p + (\<Sum>x\<leftarrow>sl. anchor_grad vec_dim Wc (pr x) p) \<and>
      w2v_db st1 k = w2v_db st k + (\<Sum>x\<leftarrow>sl. bias_grad (pr x) k) \<and>
      pair_loss (s\<lparr>p_sign := 1\<rparr>) = ln (1 + exp (- p_y s)) \<and>
      pair_loss (s\<lparr>p_sign := - 1\<rparr>) = ln (1 + exp (p_y s)) \<and>
      w2v_ff_bp_pyx (m\<lparr>cy_w2v_ff_bp := Some Variant0\<rparr>) dsdot sdot sp_size sp_idx anc_keys pn_size
          pn_keys pn_sign Wa Wc b do_grad vec_dim st = Some st0 \<and>
      w2v_L st0 = (w2v_L st)(0 := w2v_L st 0 + (\<Sum>x\<leftarrow>sl. pair_loss (pr x))) \<and>
      w2v_dWc st0 p =
        w2v_dWc st p + (if do_grad = 1 then \<Sum>x\<leftarrow>sl. target_grad vec_dim Wa (pr x) p else 0) \<and>
      w2v_dWa st0 p =
        w2v_dWa st p + (if do_grad = 1 then \<Sum>x\<leftarrow>sl. anchor_grad vec_dim Wc (pr x) p else 0) \<and>
      w2v_db st0 k =
        w2v_db st k + (if do_grad = 1 then \<Sum>x\<leftarrow>sl. bias_grad (pr x) k else 0) \<and>
      w2v_L sv0 = (w2v_L st)(0 := w2v_L st 0 + (\<Sum>x\<leftarrow>sl. pair_loss (pr' x))) \<and>
      w2v_dWc sv0 p =
        w2v_dWc st p + (if do_grad = 1 then \<Sum>x\<leftarrow>sl. target_grad vec_dim Wa (pr' x) p else 0) \<and>
      w2v_dWa sv0 p =
        w2v_dWa st p + (if do_grad = 1 then \<Sum>x\<leftarrow>sl. anchor_grad vec_dim Wc (pr' x) p else 0) \<and>
      w2v_db sv0 k =
        w2v_db st k + (if do_grad = 1 then \<Sum>x\<leftarrow>sl. bias_grad (pr' x) k else 0) \<and>
      w2v_ff_bp_pyx (m\<lparr>cy_w2v_ff_bp := Some Variant1\<rparr>) dsdot sdot sp_size sp_idx anc_keys pn_size
          pn_keys pn_sign Wa Wc b do_grad vec_dim st = Some sv0 \<and>
      w2v_ff_bp_pyx (m\<lparr>cy_w2v_ff_bp := None\<rparr>) dsdot sdot sp_size sp_idx anc_keys pn_size
          pn_keys pn_sign Wa Wc b do_grad vec_dim st = None"
  unfolding Let_def w2v1_eq
  by (simp add: w2v0_L_upd w2v0_dWc_any w2v0_dWa_any w2v0_db_any pair_loss_def
      w2v_ff_bp_pyx_def w2v1_eq)

theorem cy_w2v_ff_bp0_pairwise_logistic_witness:
  "let st1 = cy_w2v_ff_bp0 dot 1 (\<lambda>_. 0) (\<lambda>_. 0) 2 (\<lambda>p. if p = 0 then 1 else 2) (\<lambda>_. 1)
        (\<lambda>_. 0) (\<lambda>_. 1) (\<lambda>_. 0) 1 2
        \<lparr>w2v_dWa = (\<lambda>_. 0), w2v_dWc = (\<lambda>_. 0), w2v_db = (\<lambda>_. 0), w2v_L = (\<lambda>_. 0)\<rparr>;
       sv1 = cy_w2v_ff_bp1 dot 1 (\<lambda>_. 0) (\<lambda>_. 0) 2 (\<lambda>p. if p = 0 then 1 else 2) (\<lambda>_. 1)
        (\<lambda>_. 0) (\<lambda>_. 1) (\<lambda>_. 0) 1 2
        \<lparr>w2v_dWa = (\<lambda>_. 0), w2v_dWc = (\<lambda>_. 0), w2v_db = (\<lambda>_. 0), w2v_L = (\<lambda>_. 0)\<rparr>
   in w2v_L st1 0 = 2 * ln 2 \<and> w2v_dWc st1 2 = 0 \<and> w2v_dWa st1 0 = - 1 \<and> w2v_db st1 1 = - (1 / 2) \<and>
      w2v_L sv1 0 = 2 * ln 2 \<and> w2v_dWa sv1 0 = - 1 \<and> w2v_db sv1 1 = - (1 / 2) \<and>
      w2v_ff_bp_pyx \<lparr>cy_w2v_ff_bp = Some Variant1, cy_nsl_ff_bp = None, cy_acl_ff_bp = None\<rparr> dot dot
        1 (\<lambda>_. 0) (\<lambda>_. 0) 2 (\<lambda>p. if p = 0 then 1 else 2) (\<lambda>_. 1) (\<lambda>_. 0) (\<lambda>_. 1) (\<lambda>_. 0) 1 2
        \<lparr>w2v_dWa = (\<lambda>_. 0), w2v_dWc = (\<lambda>_. 0), w2v_db = (\<lambda>_. 0), w2v_L = (\<lambda>_. 0)\<rparr> = Some sv1"
  using cy_w2v_ff_bp0_pairwise_logistic [where dsdot = dot and sdot = dot and sp_size = 1
      and sp_idx = "\<lambda>_. 0" and anc_keys = "\<lambda>_. 0" and pn_size = 2
      and pn_keys = "\<lambda>p. if p = 0 then 1 else 2"
      and pn_sign = "\<lambda>_. 1" and Wa = "\<lambda>_. 0" and Wc = "\<lambda>_. 1" and b = "\<lambda>_. 0"
      and vec_dim = 2 and do_grad = 1 and p = 2 and k = 1
      and m = "\<lparr>cy_w2v_ff_bp = None, cy_nsl_ff_bp = None, cy_acl_ff_bp = None\<rparr>"
      and st = "\<lparr>w2v_dWa = (\<lambda>_. 0), w2v_dWc = (\<lambda>_. 0), w2v_db = (\<lambda>_. 0), w2v_L = (\<lambda>_. 0)\<rparr>"]
    cy_w2v_ff_bp0_pairwise_logistic [where dsdot = dot and sdot = dot and sp_size = 1
      and sp_idx = "\<lambda>_. 0" and anc_keys = "\<lambda>_. 0" and pn_size = 2
      and pn_keys = "\<lambda>p. if p = 0 then 1 else 2"
      and pn_sign = "\<lambda>_. 1" and Wa = "\<lambda>_. 0" and Wc = "\<lambda>_. 1" and b = "\<lambda>_. 0"
      and vec_dim = 2 and do_grad = 1 and p = 0 and k = 1
      and m = "\<lparr>cy_w2v_ff_bp = None, cy_nsl_ff_bp = None, cy_acl_ff_bp = None\<rparr>"
      and st = "\<lparr>w2v_dWa = (\<lambda>_. 0), w2v_dWc = (\<lambda>_. 0), w2v_db = (\<lambda>_. 0), w2v_L = (\<lambda>_. 0)\<rparr>"]
  by (simp add: Let_def slots_def w2v_pair_def pair_loss_def pair_g_def target_grad_def
      anchor_grad_def bias_grad_def dot_def upt_rec)

section \<open>The shared-table kernel skips the sentinel slots\<close>

lemma last_write_Nil: "last_write k v [] B = B"
  by (simp add: last_write_def)

lemma last_write_untouched:
  "p \<notin> k ` set xs \<Longrightarrow> last_write k v xs B p = B p"
  by (induction xs rule: rev_induct) (simp_all add: last_write_Nil last_write_snoc)

lemma last_write_overwrites:
  "p \<in> k ` set xs \<Longrightarrow> last_write k v xs B p = last_write k v xs B' p"
  by (induction xs rule: rev_induct) (auto simp add: last_write_snoc)

lemma nsl0_all_sentinel:
  assumes "live_slots sp_size sp_idx pn_size pn_keys = []"
  shows "cy_nsl_ff_bp0 dsdot sp_size sp_idx pn_size pn_keys pn_sign X W b do_grad vec_dim st = st"
proof (cases "do_grad = 1")
  case True
  show ?thesis
    by (rule nsl_bufs.equality)
       (simp_all add: True nsl0_L nsl0_dW nsl0_dX nsl0_db assms last_write_def fun_eq_iff)
next
  case False
  show ?thesis
    by (rule nsl_bufs.equality)
       (simp_all add: nsl0_nograd [OF False] nsl0_L assms last_write_def fun_eq_iff)
qed

text \<open>
  C4. Shared-table kernel, sentinel skip: what a call of \<^verbatim>\<open>cy_nsl_ff_bp0\<close> leaves in the
  loss matrix and in the three gradient accumulators is determined by the live slots
  alone, those whose key is below \<^verbatim>\<open>MAX_HSM_KEY\<close>; a slot whose key is at or above it adds
  nothing to any gradient and stores no loss, so a loss entry that only sentinel slots
  address keeps its value, and a call whose slots are all sentinels changes nothing. A
  live slot stores the loss of its pair in its loss entry and adds the gradients of its
  pair, by the formulas of the two-table kernel (\<open>pair_loss\<close>, \<open>target_grad\<close>, \<open>anchor_grad\<close>,
  \<open>bias_grad\<close>).
\<close>

theorem cy_nsl_ff_bp0_sentinel_skip:
  "let pr = nsl_pair dsdot sp_idx pn_size pn_keys pn_sign X W b vec_dim;
       live = live_slots sp_size sp_idx pn_size pn_keys;
       st0 = cy_nsl_ff_bp0 dsdot sp_size sp_idx pn_size pn_keys pn_sign X W b do_grad vec_dim st;
       st1 = cy_nsl_ff_bp0 dsdot sp_size sp_idx pn_size pn_keys pn_sign X W b 1 vec_dim st
   in live = filter (\<lambda>x. nsl_key sp_idx pn_size pn_keys x < MAX_HSM_KEY) (slots sp_size pn_size) \<and>
      nsl_L st0 = last_write (nsl_idx sp_idx pn_size) (\<lambda>x. pair_loss (pr x)) live (nsl_L st) \<and>
      ((\<forall>x\<in>set (slots sp_size pn_size).
          nsl_idx sp_idx pn_size x = p \<longrightarrow> MAX_HSM_KEY \<le> nsl_key sp_idx pn_size pn_keys x) \<longrightarrow>
        nsl_L st0 p = nsl_L st p) \<and>
      nsl_dW st1 p = nsl_dW st p + (\<Sum>x\<leftarrow>live. target_grad vec_dim X (pr x) p) \<and>
      nsl_dX st1 p = nsl_dX st p + (\<Sum>x\<leftarrow>live. anchor_grad vec_dim W (pr x) p) \<and>
      nsl_db st1 k = nsl_db st k + (\<Sum>x\<leftarrow>live. bias_grad (pr x) k) \<and>
      (live = [] \<longrightarrow> st0 = st)"
proof -
  have "nsl_L (cy_nsl_ff_bp0 dsdot sp_size sp_idx pn_size pn_keys pn_sign X W b do_grad vec_dim st) p =
        nsl_L st p"
    if "\<forall>x\<in>set (slots sp_size pn_size).
          nsl_idx sp_idx pn_size x = p \<longrightarrow> MAX_HSM_KEY \<le> nsl_key sp_idx pn_size pn_keys x"
  proof -
    from that have "p \<notin> nsl_idx sp_idx pn_size ` set (live_slots sp_size sp_idx pn_size pn_keys)"
      by (auto simp add: live_slots_def)
    then show ?thesis
      by (simp add: nsl0_L last_write_untouched)
  qed
  then show ?thesis
    unfolding Let_def
    by (simp add: nsl0_L nsl0_dW nsl0_dX nsl0_db nsl0_all_sentinel live_slots_def)
qed

theorem cy_nsl_ff_bp0_sentinel_skip_witness:
  "let st1 = cy_nsl_ff_bp0 dot 1 (\<lambda>_. 0) 2 (\<lambda>p. if p = 0 then 1 else 12345678) (\<lambda>_. 1)
        (\<lambda>_. 0) (\<lambda>_. 1) (\<lambda>_. 0) 1 1
        \<lparr>nsl_dX = (\<lambda>_. 0), nsl_dW = (\<lambda>_. 0), nsl_db = (\<lambda>_. 0), nsl_L = (\<lambda>_. 7)\<rparr>
   in nsl_L st1 0 = ln 2 \<and> nsl_L st1 1 = 7 \<and> nsl_dX st1 0 = - (1 / 2) \<and>
      nsl_dW st1 12345678 = 0 \<and> nsl_db st1 1 = - (1 / 2) \<and> nsl_db st1 12345678 = 0"
  using cy_nsl_ff_bp0_sentinel_skip [where dsdot = dot and sp_size = 1 and sp_idx = "\<lambda>_. 0"
      and pn_size = 2 and pn_keys = "\<lambda>p. if p = 0 then 1 else 12345678"
      and pn_sign = "\<lambda>_. 1" and X = "\<lambda>_. 0" and W = "\<lambda>_. 1" and b = "\<lambda>_. 0"
      and vec_dim = 1 and do_grad = 1 and p = 1 and k = 1
      and st = "\<lparr>nsl_dX = (\<lambda>_. 0), nsl_dW = (\<lambda>_. 0), nsl_db = (\<lambda>_. 0), nsl_L = (\<lambda>_. 7)\<rparr>"]
    cy_nsl_ff_bp0_sentinel_skip [where dsdot = dot and sp_size = 1 and sp_idx = "\<lambda>_. 0"
      and pn_size = 2 and pn_keys = "\<lambda>p. if p = 0 then 1 else 12345678"
      and pn_sign = "\<lambda>_. 1" and X = "\<lambda>_. 0" and W = "\<lambda>_. 1" and b = "\<lambda>_. 0"
      and vec_dim = 1 and do_grad = 1 and p = 0 and k = 12345678
      and st = "\<lparr>nsl_dX = (\<lambda>_. 0), nsl_dW = (\<lambda>_. 0), nsl_db = (\<lambda>_. 0), nsl_L = (\<lambda>_. 7)\<rparr>"]
    cy_nsl_ff_bp0_sentinel_skip [where dsdot = dot and sp_size = 1 and sp_idx = "\<lambda>_. 0"
      and pn_size = 2 and pn_keys = "\<lambda>p. if p = 0 then 1 else 12345678"
      and pn_sign = "\<lambda>_. 1" and X = "\<lambda>_. 0" and W = "\<lambda>_. 1" and b = "\<lambda>_. 0"
      and vec_dim = 1 and do_grad = 1 and p = 12345678 and k = 12345678
      and st = "\<lparr>nsl_dX = (\<lambda>_. 0), nsl_dW = (\<lambda>_. 0), nsl_db = (\<lambda>_. 0), nsl_L = (\<lambda>_. 7)\<rparr>"]
  by (simp add: Let_def slots_def live_slots_def nsl_pair_def nsl_key_def nsl_idx_def
      last_write_def MAX_HSM_KEY_def pair_loss_def pair_g_def target_grad_def
      anchor_grad_def bias_grad_def dot_def upt_rec)

section \<open>The forward pass of the auto-contrastive kernel\<close>

lemma neg_slots_one: "neg_slots n 1 = []"
  by (simp add: neg_slots_def)

text \<open>
  C5. Contrastive-ratio kernel, forward pass: with \<open>a = 1.0\<close>, \<open>k = 1.0\<close>, \<open>c = 0.1\<close>, a call of
  \<^verbatim>\<open>cy_acl_ff_bp0\<close> stores, for every negative slot \<open>j \<ge> 1\<close> of every selected row, the loss
  \<open>-log(f_pos / (f_pos + f_neg_j + c))\<close> in the entry of the slot, where
  \<open>f_neg_j = k * exp(a * dot(x, w_neg_j) + b_neg_j)\<close> and
  \<open>f_pos = exp(a * dot(x, w_pos) + b_pos)\<close> is the value slot 0 of that row computes: it
  depends on the row only, not on \<open>j\<close>, and not on what the locals held on entry. Slot 0
  itself writes nothing: the stores, and with \<^verbatim>\<open>do_grad = 1\<close> the gradient additions,
  range over the slots with \<open>j \<ge> 1\<close>, and a call with \<open>pn_size = 1\<close> leaves every buffer as
  it was.
\<close>

theorem cy_acl_ff_bp0_forward:
  "let sl = acl_slot_of dsdot sp_idx pn_size pn_keys X W b vec_dim;
       x = uint (sp_idx sp_i * word_of_int vec_dim);
       pos_key = pn_keys (uint (sp_idx sp_i * word_of_int pn_size + 0));
       neg_key = pn_keys (uint (sp_idx sp_i * word_of_int pn_size + word_of_int j));
       st' = cy_acl_ff_bp0 dsdot sp_size sp_idx pn_size pn_keys pn_sign X W b do_grad vec_dim loc st;
       st1 = cy_acl_ff_bp0 dsdot sp_size sp_idx pn_size pn_keys pn_sign X W b 1 vec_dim loc st
   in nsl_L st' =
        last_write (\<lambda>x. s_idx (sl x))
          (\<lambda>x. - ln (s_f_pos (sl x) / (s_f_pos (sl x) + s_f_neg (sl x) + 0.1)))
          (neg_slots sp_size pn_size) (nsl_L st) \<and>
      s_idx (sl (sp_i, j)) = uint (sp_idx sp_i * word_of_int pn_size + word_of_int j) \<and>
      s_f_pos (sl (sp_i, j)) =
        exp (1.0 * dsdot vec_dim X x W (uint (pos_key * word_of_int vec_dim)) + b (uint pos_key)) \<and>
      s_f_neg (sl (sp_i, j)) =
        1.0 * exp (1.0 * dsdot vec_dim X x W (uint (neg_key * word_of_int vec_dim)) + b (uint neg_key)) \<and>
      nsl_dX st1 p = nsl_dX st p + (\<Sum>x\<leftarrow>neg_slots sp_size pn_size. acl_dX_grad vec_dim W (sl x) p) \<and>
      nsl_dW st1 p = nsl_dW st p + (\<Sum>x\<leftarrow>neg_slots sp_size pn_size. acl_dW_grad vec_dim X (sl x) p) \<and>
      nsl_db st1 q = nsl_db st q + (\<Sum>x\<leftarrow>neg_slots sp_size pn_size. acl_db_grad (sl x) q) \<and>
      (\<forall>x\<in>set (neg_slots sp_size pn_size). 1 \<le> snd x) \<and>
      cy_acl_ff_bp0 dsdot sp_size sp_idx 1 pn_keys pn_sign X W b do_grad vec_dim loc st = st"
proof -
  have "\<forall>x\<in>set (neg_slots sp_size pn_size). 1 \<le> snd x"
    by (auto simp add: neg_slots_def)
  moreover have "cy_acl_ff_bp0 dsdot sp_size sp_idx 1 pn_keys pn_sign X W b do_grad vec_dim loc st = st"
    by (simp add: acl0_fold neg_slots_one)
  ultimately show ?thesis
    unfolding Let_def
    by (simp add: acl0_L acl0_dX acl0_dW acl0_db acl_loss_def acl_denom_def acl_slot_of_def
        acl_seed_def Let_def)
qed

theorem cy_acl_ff_bp0_forward_witness:
  "let st' = cy_acl_ff_bp0 dot 1 (\<lambda>_. 0) 3 (\<lambda>p. word_of_int p) (\<lambda>_. 1)
        (\<lambda>_. 0) (\<lambda>_. 1) (\<lambda>_. 0) 0 1 \<lparr>loc_Wk_p = 9, loc_r_p = 9, loc_f_p = 9\<rparr>
        \<lparr>nsl_dX = (\<lambda>_. 0), nsl_dW = (\<lambda>_. 0), nsl_db = (\<lambda>_. 0), nsl_L = (\<lambda>_. 7)\<rparr>
   in nsl_L st' 0 = 7 \<and> nsl_L st' 1 = - ln (1 / (21 / 10)) \<and> nsl_L st' 2 = - ln (1 / (21 / 10))"
  using cy_acl_ff_bp0_forward [where dsdot = dot and sp_size = 1 and sp_idx = "\<lambda>_. 0"
      and pn_size = 3 and pn_keys = "\<lambda>p. word_of_int p"
      and pn_sign = "\<lambda>_. 1" and X = "\<lambda>_. 0" and W = "\<lambda>_. 1" and b = "\<lambda>_. 0"
      and vec_dim = 1 and do_grad = 0 and loc = "\<lparr>loc_Wk_p = 9, loc_r_p = 9, loc_f_p = 9\<rparr>"
      and st = "\<lparr>nsl_dX = (\<lambda>_. 0), nsl_dW = (\<lambda>_. 0), nsl_db = (\<lambda>_. 0), nsl_L = (\<lambda>_. 7)\<rparr>"]
  by (simp add: Let_def neg_slots_def acl_slot_of_def acl_seed_def last_write_def dot_def upt_rec)


section \<open>How the kernels update the loss accumulator\<close>

text \<open>
  C6, as stated: after every kernel call the loss accumulator is its content before the
  call plus the losses of the call. The shared-table kernel does not do this: on one
  live slot with score 0 and an entry that holds 5, the call leaves \<open>ln 2\<close>, the loss of
  the slot, in the entry, and not \<open>5 + ln 2\<close>.
\<close>

theorem nsl_loss_overwrite_counterexample:
  "nsl_L (cy_nsl_ff_bp0 dot 1 (\<lambda>_. 0) 1 (\<lambda>_. 0) (\<lambda>_. 1) (\<lambda>_. 0) (\<lambda>_. 0) (\<lambda>_. 0) 0 1
      \<lparr>nsl_dX = (\<lambda>_. 0), nsl_dW = (\<lambda>_. 0), nsl_db = (\<lambda>_. 0), nsl_L = (\<lambda>_. 5)\<rparr>) 0 = ln 2 \<and>
   nsl_L (cy_nsl_ff_bp0 dot 1 (\<lambda>_. 0) 1 (\<lambda>_. 0) (\<lambda>_. 1) (\<lambda>_. 0) (\<lambda>_. 0) (\<lambda>_. 0) 0 1
      \<lparr>nsl_dX = (\<lambda>_. 0), nsl_dW = (\<lambda>_. 0), nsl_db = (\<lambda>_. 0), nsl_L = (\<lambda>_. 5)\<rparr>) 0 \<noteq> 5 + ln 2"
  by (simp add: cy_nsl_ff_bp0_def for_range_def Let_def MAX_HSM_KEY_def dot_def)

text \<open>
  C6, amended. The two-table kernel adds the losses of the call to \<^verbatim>\<open>L[0]\<close> and leaves
  the other elements of \<^verbatim>\<open>L\<close> alone. The shared-table and the auto-contrastive kernels
  assign: each live (resp. negative) slot stores its loss in its own entry of the loss
  matrix, the last store to an entry stands, entries no slot addresses keep their
  value, and an entry that is addressed does not depend on what it held before the call.
\<close>

theorem loss_accumulator_updates:
  "w2v_L (cy_w2v_ff_bp0 dsdot sp_size sp_idx anc_keys pn_size pn_keys pn_sign Wa Wc b do_grad vec_dim stw) =
     (w2v_L stw)(0 := w2v_L stw 0 +
        (\<Sum>x\<leftarrow>slots sp_size pn_size.
           pair_loss (w2v_pair dsdot sp_idx anc_keys pn_size pn_keys pn_sign Wa Wc b vec_dim x))) \<and>
   nsl_L (cy_nsl_ff_bp0 dsdot sp_size sp_idx pn_size pn_keys pn_sign X W b do_grad vec_dim st) =
     last_write (nsl_idx sp_idx pn_size)
       (\<lambda>x. pair_loss (nsl_pair dsdot sp_idx pn_size pn_keys pn_sign X W b vec_dim x))
       (live_slots sp_size sp_idx pn_size pn_keys) (nsl_L st) \<and>
   nsl_L (cy_acl_ff_bp0 dsdot sp_size sp_idx pn_size pn_keys pn_sign X W b do_grad vec_dim loc st) =
     last_write (\<lambda>x. s_idx (acl_slot_of dsdot sp_idx pn_size pn_keys X W b vec_dim x))
       (\<lambda>x. acl_loss (acl_slot_of dsdot sp_idx pn_size pn_keys X W b vec_dim x))
       (neg_slots sp_size pn_size) (nsl_L st) \<and>
   (p \<in> nsl_idx sp_idx pn_size ` set (live_slots sp_size sp_idx pn_size pn_keys) \<longrightarrow>
      nsl_L (cy_nsl_ff_bp0 dsdot sp_size sp_idx pn_size pn_keys pn_sign X W b do_grad vec_dim st) p =
      nsl_L (cy_nsl_ff_bp0 dsdot sp_size sp_idx pn_size pn_keys pn_sign X W b do_grad vec_dim stb) p) \<and>
   (p \<in> (\<lambda>x. s_idx (acl_slot_of dsdot sp_idx pn_size pn_keys X W b vec_dim x)) ` set (neg_slots sp_size pn_size) \<longrightarrow>
      nsl_L (cy_acl_ff_bp0 dsdot sp_size sp_idx pn_size pn_keys pn_sign X W b do_grad vec_dim loc st) p =
      nsl_L (cy_acl_ff_bp0 dsdot sp_size sp_idx pn_size pn_keys pn_sign X W b do_grad vec_dim loc stb) p)"
  using last_write_overwrites [of p "nsl_idx sp_idx pn_size" "live_slots sp_size sp_idx pn_size pn_keys"
      "\<lambda>x. pair_loss (nsl_pair dsdot sp_idx pn_size pn_keys pn_sign X W b vec_dim x)" "nsl_L st" "nsl_L stb"]
    last_write_overwrites [of p "\<lambda>x. s_idx (acl_slot_of dsdot sp_idx pn_size pn_keys X W b vec_dim x)"
      "neg_slots sp_size pn_size"
      "\<lambda>x. acl_loss (acl_slot_of dsdot sp_idx pn_size pn_keys X W b vec_dim x)" "nsl_L st" "nsl_L stb"]
  by (simp add: w2v0_L_upd nsl0_L acl0_L)

theorem loss_accumulator_updates_witness:
  "w2v_L (cy_w2v_ff_bp0 dot 1 (\<lambda>_. 0) (\<lambda>_. 0) 2 (\<lambda>_. 0) (\<lambda>_. 1) (\<lambda>_. 0) (\<lambda>_. 0) (\<lambda>_. 0) 0 1
      \<lparr>w2v_dWa = (\<lambda>_. 0), w2v_dWc = (\<lambda>_. 0), w2v_db = (\<lambda>_. 0), w2v_L = (\<lambda>_. 5)\<rparr>) 0 = 5 + 2 * ln 2 \<and>
   nsl_L (cy_nsl_ff_bp0 dot 1 (\<lambda>_. 0) 1 (\<lambda>_. 0) (\<lambda>_. 1) (\<lambda>_. 0) (\<lambda>_. 0) (\<lambda>_. 0) 0 1
      \<lparr>nsl_dX = (\<lambda>_. 0), nsl_dW = (\<lambda>_. 0), nsl_db = (\<lambda>_. 0), nsl_L = (\<lambda>_. 5)\<rparr>) 0 =
   nsl_L (cy_nsl_ff_bp0 dot 1 (\<lambda>_. 0) 1 (\<lambda>_. 0) (\<lambda>_. 1) (\<lambda>_. 0) (\<lambda>_. 0) (\<lambda>_. 0) 0 1
      \<lparr>nsl_dX = (\<lambda>_. 0), nsl_dW = (\<lambda>_. 0), nsl_db = (\<lambda>_. 0), nsl_L = (\<lambda>_. 0)\<rparr>) 0 \<and>
   nsl_L (cy_acl_ff_bp0 dot 1 (\<lambda>_. 0) 2 (\<lambda>_. 0) (\<lambda>_. 1) (\<lambda>_. 0) (\<lambda>_. 0) (\<lambda>_. 0) 0 1
      \<lparr>loc_Wk_p = 0, loc_r_p = 0, loc_f_p = 0\<rparr>
      \<lparr>nsl_dX = (\<lambda>_. 0), nsl_dW = (\<lambda>_. 0), nsl_db = (\<lambda>_. 0), nsl_L = (\<lambda>_. 5)\<rparr>) 1 =
   nsl_L (cy_acl_ff_bp0 dot 1 (\<lambda>_. 0) 2 (\<lambda>_. 0) (\<lambda>_. 1) (\<lambda>_. 0) (\<lambda>_. 0) (\<lambda>_. 0) 0 1
      \<lparr>loc_Wk_p = 0, loc_r_p = 0, loc_f_p = 0\<rparr>
      \<lparr>nsl_dX = (\<lambda>_. 0), nsl_dW = (\<lambda>_. 0), nsl_db = (\<lambda>_. 0), nsl_L = (\<lambda>_. 0)\<rparr>) 1"
proof -
  have a: "(0::int) \<in> nsl_idx (\<lambda>_. 0) 1 ` set (live_slots 1 (\<lambda>_. 0) 1 (\<lambda>_. 0))"
    by (simp add: live_slots_def slots_def nsl_idx_def nsl_key_def MAX_HSM_KEY_def upt_rec)
  have b: "(1::int) \<in> (\<lambda>x. s_idx (acl_slot_of dot (\<lambda>_. 0) 2 (\<lambda>_. 0) (\<lambda>_. 0) (\<lambda>_. 0) (\<lambda>_. 0) 1 x)) `
      set (neg_slots 1 2)"
    by (simp add: neg_slots_def acl_slot_of_def Let_def upt_rec)
  note t2 = loss_accumulator_updates [where dsdot = dot and sp_size = 1 and sp_idx = "\<lambda>_. 0"
        and anc_keys = "\<lambda>_. 0" and pn_size = 2 and pn_keys = "\<lambda>_. 0" and pn_sign = "\<lambda>_. 1"
        and Wa = "\<lambda>_. 0" and Wc = "\<lambda>_. 0" and b = "\<lambda>_. 0" and X = "\<lambda>_. 0" and W = "\<lambda>_. 0"
        and do_grad = 0 and vec_dim = 1 and p = 1
        and loc = "\<lparr>loc_Wk_p = 0, loc_r_p = 0, loc_f_p = 0\<rparr>"
        and stw = "\<lparr>w2v_dWa = (\<lambda>_. 0), w2v_dWc = (\<lambda>_. 0), w2v_db = (\<lambda>_. 0), w2v_L = (\<lambda>_. 5)\<rparr>"
        and st = "\<lparr>nsl_dX = (\<lambda>_. 0), nsl_dW = (\<lambda>_. 0), nsl_db = (\<lambda>_. 0), nsl_L = (\<lambda>_. 5)\<rparr>"
        and stb = "\<lparr>nsl_dX = (\<lambda>_. 0), nsl_dW = (\<lambda>_. 0), nsl_db = (\<lambda>_. 0), nsl_L = (\<lambda>_. 0)\<rparr>"]
  note t1 = loss_accumulator_updates [where dsdot = dot and sp_size = 1 and sp_idx = "\<lambda>_. 0"
        and anc_keys = "\<lambda>_. 0" and pn_size = 1 and pn_keys = "\<lambda>_. 0" and pn_sign = "\<lambda>_. 1"
        and Wa = "\<lambda>_. 0" and Wc = "\<lambda>_. 0" and b = "\<lambda>_. 0" and X = "\<lambda>_. 0" and W = "\<lambda>_. 0"
        and do_grad = 0 and vec_dim = 1 and p = 0
        and loc = "\<lparr>loc_Wk_p = 0, loc_r_p = 0, loc_f_p = 0\<rparr>"
        and stw = "\<lparr>w2v_dWa = (\<lambda>_. 0), w2v_dWc = (\<lambda>_. 0), w2v_db = (\<lambda>_. 0), w2v_L = (\<lambda>_. 5)\<rparr>"
        and st = "\<lparr>nsl_dX = (\<lambda>_. 0), nsl_dW = (\<lambda>_. 0), nsl_db = (\<lambda>_. 0), nsl_L = (\<lambda>_. 5)\<rparr>"
        and stb = "\<lparr>nsl_dX = (\<lambda>_. 0), nsl_dW = (\<lambda>_. 0), nsl_db = (\<lambda>_. 0), nsl_L = (\<lambda>_. 0)\<rparr>"]
  have c: "w2v_L (cy_w2v_ff_bp0 dot 1 (\<lambda>_. 0) (\<lambda>_. 0) 2 (\<lambda>_. 0) (\<lambda>_. 1) (\<lambda>_. 0) (\<lambda>_. 0) (\<lambda>_. 0) 0 1
      \<lparr>w2v_dWa = (\<lambda>_. 0), w2v_dWc = (\<lambda>_. 0), w2v_db = (\<lambda>_. 0), w2v_L = (\<lambda>_. 5)\<rparr>) 0 = 5 + 2 * ln 2"
    by (simp add: t2 [THEN conjunct1] slots_def w2v_pair_def pair_loss_def dot_def upt_rec Let_def)
  show ?thesis
    using a b c t1 [THEN conjunct2, THEN conjunct2, THEN conjunct2, THEN conjunct1]
      t2 [THEN conjunct2, THEN conjunct2, THEN conjunct2, THEN conjunct2]
    by blast
qed

section \<open>The gradient coefficients of the auto-contrastive kernel\<close>

text \<open>
  C7, as stated: the coefficients \<open>g_pos = -a*(c + f_neg)/denom\<close> and \<open>g_neg = a*f_neg/denom\<close>
  that the kernel applies add up to \<open>-a\<close>. They do not: on one row with one negative slot,
  \<open>x = 0\<close> and both target rows equal to 1 (so \<open>f_pos = f_neg = 1\<close>, \<open>denom = 2.1\<close>), the
  kernel adds \<open>g_pos * 1 + g_neg * 1\<close> to the input gradient, and that sum is \<open>-1/21\<close>, more
  than 0.9 away from \<open>-a = -1\<close>.
\<close>

theorem acl_gradient_sum_counterexample:
  "nsl_dX (cy_acl_ff_bp0 dot 1 (\<lambda>_. 0) 2 (\<lambda>p. word_of_int p) (\<lambda>_. 1) (\<lambda>_. 0) (\<lambda>_. 1) (\<lambda>_. 0) 1 1
      \<lparr>loc_Wk_p = 0, loc_r_p = 0, loc_f_p = 0\<rparr>
      \<lparr>nsl_dX = (\<lambda>_. 0), nsl_dW = (\<lambda>_. 0), nsl_db = (\<lambda>_. 0), nsl_L = (\<lambda>_. 0)\<rparr>) 0 =
     acl_g_yp 1.0 0.1 1 (1 + 1 + 0.1) * 1 + acl_g_yn 1.0 1 (1 + 1 + 0.1) * 1 \<and>
   acl_g_yp 1.0 0.1 1 (1 + 1 + 0.1) + acl_g_yn 1.0 1 (1 + 1 + 0.1) = - (1 / 21) \<and>
   \<bar>acl_g_yp 1.0 0.1 1 (1 + 1 + 0.1) + acl_g_yn 1.0 1 (1 + 1 + 0.1) - (- 1.0)\<bar> > 0.9"
  by (simp add: cy_acl_ff_bp0_def for_range_def Let_def dot_def saxpy_def acl_g_yp_def
      acl_g_yn_def upt_rec)

text \<open>
  C7, amended. The coefficients add up to \<open>-a*c/denom\<close>. With \<open>a = 1.0\<close>, \<open>c = 0.1\<close> and
  positive \<open>f_pos\<close>, \<open>f_neg\<close> (they are exponentials) this lies strictly between \<open>-a\<close> and 0;
  what equals \<open>-a\<close> is \<open>g_pos - a*f_pos/denom\<close>.
\<close>

theorem acl_gradient_sum:
  "acl_g_yp a c f_n (f_p + f_n + c) + acl_g_yn a f_n (f_p + f_n + c) = - (a * c) / (f_p + f_n + c) \<and>
   (0 < f_p \<and> 0 < f_n \<longrightarrow>
      - 1.0 < acl_g_yp 1.0 0.1 f_n (f_p + f_n + 0.1) + acl_g_yn 1.0 f_n (f_p + f_n + 0.1) \<and>
      acl_g_yp 1.0 0.1 f_n (f_p + f_n + 0.1) + acl_g_yn 1.0 f_n (f_p + f_n + 0.1) < 0 \<and>
      acl_g_yp 1.0 0.1 f_n (f_p + f_n + 0.1) - 1.0 * f_p / (f_p + f_n + 0.1) = - 1.0)"
proof -
  have s: "acl_g_yp a c f_n (f_p + f_n + c) + acl_g_yn a f_n (f_p + f_n + c) = - (a * c) / (f_p + f_n + c)"
    for a c
    by (simp add: acl_g_yp_def acl_g_yn_def add_divide_distrib [symmetric] algebra_simps)
  have "- 1.0 < acl_g_yp 1.0 0.1 f_n (f_p + f_n + 0.1) + acl_g_yn 1.0 f_n (f_p + f_n + 0.1) \<and>
      acl_g_yp 1.0 0.1 f_n (f_p + f_n + 0.1) + acl_g_yn 1.0 f_n (f_p + f_n + 0.1) < 0 \<and>
      acl_g_yp 1.0 0.1 f_n (f_p + f_n + 0.1) - 1.0 * f_p / (f_p + f_n + 0.1) = - 1.0"
    if "0 < f_p" "0 < f_n"
  proof -
    have d: "0 < f_p + f_n + 0.1" using that by simp
    have "acl_g_yp 1.0 0.1 f_n (f_p + f_n + 0.1) - 1.0 * f_p / (f_p + f_n + 0.1) =
          (- (0.1 + f_n) - f_p) / (f_p + f_n + 0.1)"
      by (simp add: acl_g_yp_def diff_divide_distrib)
    also have "\<dots> = (- (f_p + f_n + 0.1)) / (f_p + f_n + 0.1)"
      by (rule arg_cong [where f = "\<lambda>t. t / (f_p + f_n + 0.1)"]) simp
    also have "\<dots> = - ((f_p + f_n + 0.1) / (f_p + f_n + 0.1))"
      by (rule minus_divide_left [symmetric])
    also have "\<dots> = - 1.0"
      using d by simp
    finally have "acl_g_yp 1.0 0.1 f_n (f_p + f_n + 0.1) - 1.0 * f_p / (f_p + f_n + 0.1) = - 1.0" .
    moreover have "- 1.0 < - (1.0 * 0.1) / (f_p + f_n + 0.1)"
      using d that by (simp add: field_simps)
    moreover have "- (1.0 * 0.1) / (f_p + f_n + 0.1) < 0"
      using d by (simp add: field_simps)
    ultimately show ?thesis
      using s [of "1.0" "0.1"] by simp
  qed
  with s show ?thesis by blast
qed

theorem acl_gradient_sum_witness:
  "(0::real) < 1 \<and>
   acl_g_yp 1.0 0.1 1 (1 + 1 + 0.1) + acl_g_yn 1.0 1 (1 + 1 + 0.1) = - (1.0 * 0.1) / (1 + 1 + 0.1) \<and>
   acl_g_yp 1.0 0.1 1 (1 + 1 + 0.1) + acl_g_yn 1.0 1 (1 + 1 + 0.1) < 0 \<and>
   acl_g_yp 1.0 0.1 1 (1 + 1 + 0.1) - 1.0 * 1 / (1 + 1 + 0.1) = - 1.0"
  using acl_gradient_sum [of "1.0" "0.1" 1 1] by simp

section \<open>The \<^verbatim>\<open>do_grad\<close> flag\<close>

text \<open>
  C8, as stated: every nonzero \<^verbatim>\<open>do_grad\<close> makes a kernel perform its gradient mutations.
  The kernels test \<^verbatim>\<open>do_grad == 1\<close>: with \<^verbatim>\<open>do_grad = 2\<close> the two-table kernel leaves the
  bias gradient at 0 on an input where the call with \<^verbatim>\<open>do_grad = 1\<close> adds \<open>-1/2\<close> to it.
\<close>

theorem do_grad_nonzero_counterexample:
  "w2v_db (cy_w2v_ff_bp0 dot 1 (\<lambda>_. 0) (\<lambda>_. 0) 1 (\<lambda>_. 0) (\<lambda>_. 1) (\<lambda>_. 0) (\<lambda>_. 0) (\<lambda>_. 0) 2 1
      \<lparr>w2v_dWa = (\<lambda>_. 0), w2v_dWc = (\<lambda>_. 0), w2v_db = (\<lambda>_. 0), w2v_L = (\<lambda>_. 0)\<rparr>) 0 = 0 \<and>
   w2v_db (cy_w2v_ff_bp0 dot 1 (\<lambda>_. 0) (\<lambda>_. 0) 1 (\<lambda>_. 0) (\<lambda>_. 1) (\<lambda>_. 0) (\<lambda>_. 0) (\<lambda>_. 0) 1 1
      \<lparr>w2v_dWa = (\<lambda>_. 0), w2v_dWc = (\<lambda>_. 0), w2v_db = (\<lambda>_. 0), w2v_L = (\<lambda>_. 0)\<rparr>) 0 = - (1 / 2)"
  by (simp add: cy_w2v_ff_bp0_def for_range_def Let_def dot_def saxpy_def)

text \<open>
  C8, amended. For every value of \<^verbatim>\<open>do_grad\<close> other than 1 (0 among them) a call of the
  two-table, the shared-table or the auto-contrastive kernel leaves all three of its
  gradient accumulators unchanged; the loss it computes is the same for every value of
  \<^verbatim>\<open>do_grad\<close>. With \<^verbatim>\<open>do_grad = 1\<close> the call adds to the gradient accumulators the
  gradients of its slots (of all slots, of the live slots, of the negative slots). The
  variants 1 are the same functions of the primitive they are given as the variants 0.
\<close>

theorem do_grad_semantics:
  "let kw = (\<lambda>dg. cy_w2v_ff_bp0 dsdot sp_size sp_idx anc_keys pn_size pn_keys pn_sign Wa Wc b dg vec_dim stw);
       kn = (\<lambda>dg. cy_nsl_ff_bp0 dsdot sp_size sp_idx pn_size pn_keys pn_sign X W b dg vec_dim st);
       ka = (\<lambda>dg. cy_acl_ff_bp0 dsdot sp_size sp_idx pn_size pn_keys pn_sign X W b dg vec_dim loc st);
       prw = w2v_pair dsdot sp_idx anc_keys pn_size pn_keys pn_sign Wa Wc b vec_dim;
       prn = nsl_pair dsdot sp_idx pn_size pn_keys pn_sign X W b vec_dim;
       sla = acl_slot_of dsdot sp_idx pn_size pn_keys X W b vec_dim;
       sl = slots sp_size pn_size;
       live = live_slots sp_size sp_idx pn_size pn_keys;
       neg = neg_slots sp_size pn_size
   in (do_grad \<noteq> 1 \<longrightarrow>
         w2v_dWa (kw do_grad) = w2v_dWa stw \<and> w2v_dWc (kw do_grad) = w2v_dWc stw \<and>
         w2v_db (kw do_grad) = w2v_db stw \<and>
         nsl_dX (kn do_grad) = nsl_dX st \<and> nsl_dW (kn do_grad) = nsl_dW st \<and>
         nsl_db (kn do_grad) = nsl_db st \<and>
         nsl_dX (ka do_grad) = nsl_dX st \<and> nsl_dW (ka do_grad) = nsl_dW st \<and>
         nsl_db (ka do_grad) = nsl_db st) \<and>
      w2v_L (kw do_grad) = w2v_L (kw 1) \<and> nsl_L (kn do_grad) = nsl_L (kn 1) \<and>
      nsl_L (ka do_grad) = nsl_L (ka 1) \<and>
      w2v_dWc (kw 1) p = w2v_dWc stw p + (\<Sum>x\<leftarrow>sl. target_grad vec_dim Wa (prw x) p) \<and>
      w2v_dWa (kw 1) p = w2v_dWa stw p + (\<Sum>x\<leftarrow>sl. anchor_grad vec_dim Wc (prw x) p) \<and>
      w2v_db (kw 1) q = w2v_db stw q + (\<Sum>x\<leftarrow>sl. bias_grad (prw x) q) \<and>
      nsl_dW (kn 1) p = nsl_dW st p + (\<Sum>x\<leftarrow>live. target_grad vec_dim X (prn x) p) \<and>
      nsl_dX (kn 1) p = nsl_dX st p + (\<Sum>x\<leftarrow>live. anchor_grad vec_dim W (prn x) p) \<and>
      nsl_db (kn 1) q = nsl_db st q + (\<Sum>x\<leftarrow>live. bias_grad (prn x) q) \<and>
      nsl_dX (ka 1) p = nsl_dX st p + (\<Sum>x\<leftarrow>neg. acl_dX_grad vec_dim W (sla x) p) \<and>
      nsl_dW (ka 1) p = nsl_dW st p + (\<Sum>x\<leftarrow>neg. acl_dW_grad vec_dim X (sla x) p) \<and>
      nsl_db (ka 1) q = nsl_db st q + (\<Sum>x\<leftarrow>neg. acl_db_grad (sla x) q) \<and>
      cy_w2v_ff_bp1 = cy_w2v_ff_bp0 \<and> cy_nsl_ff_bp1 = cy_nsl_ff_bp0 \<and> cy_acl_ff_bp1 = cy_acl_ff_bp0"
  unfolding Let_def
  by (simp add: w2v0_nograd nsl0_nograd acl0_nograd w2v0_L_upd nsl0_L acl0_L
      w2v0_dWc w2v0_dWa w2v0_db nsl0_dW nsl0_dX nsl0_db acl0_dX acl0_dW acl0_db
      w2v1_eq nsl1_eq acl1_eq)

theorem do_grad_semantics_witness:
  "(2::int) \<noteq> 1 \<and>
   w2v_db (cy_w2v_ff_bp0 dot 1 (\<lambda>_. 0) (\<lambda>_. 0) 1 (\<lambda>_. 0) (\<lambda>_. 1) (\<lambda>_. 0) (\<lambda>_. 0) (\<lambda>_. 0) 2 1
      \<lparr>w2v_dWa = (\<lambda>_. 0), w2v_dWc = (\<lambda>_. 0), w2v_db = (\<lambda>_. 0), w2v_L = (\<lambda>_. 0)\<rparr>) = (\<lambda>_. 0) \<and>
   nsl_db (cy_nsl_ff_bp0 dot 1 (\<lambda>_. 0) 1 (\<lambda>_. 0) (\<lambda>_. 1) (\<lambda>_. 0) (\<lambda>_. 0) (\<lambda>_. 0) 2 1
      \<lparr>nsl_dX = (\<lambda>_. 0), nsl_dW = (\<lambda>_. 0), nsl_db = (\<lambda>_. 0), nsl_L = (\<lambda>_. 0)\<rparr>) = (\<lambda>_. 0) \<and>
   nsl_db (cy_acl_ff_bp0 dot 1 (\<lambda>_. 0) 1 (\<lambda>_. 0) (\<lambda>_. 1) (\<lambda>_. 0) (\<lambda>_. 0) (\<lambda>_. 0) 2 1
      \<lparr>loc_Wk_p = 0, loc_r_p = 0, loc_f_p = 0\<rparr>
      \<lparr>nsl_dX = (\<lambda>_. 0), nsl_dW = (\<lambda>_. 0), nsl_db = (\<lambda>_. 0), nsl_L = (\<lambda>_. 0)\<rparr>) = (\<lambda>_. 0) \<and>
   w2v_db (cy_w2v_ff_bp0 dot 1 (\<lambda>_. 0) (\<lambda>_. 0) 1 (\<lambda>_. 0) (\<lambda>_. 1) (\<lambda>_. 0) (\<lambda>_. 0) (\<lambda>_. 0) 1 1
      \<lparr>w2v_dWa = (\<lambda>_. 0), w2v_dWc = (\<lambda>_. 0), w2v_db = (\<lambda>_. 0), w2v_L = (\<lambda>_. 0)\<rparr>) 0 = - (1 / 2)"
  using do_grad_semantics [where dsdot = dot and sp_size = 1 and sp_idx = "\<lambda>_. 0"
      and anc_keys = "\<lambda>_. 0" and pn_size = 1 and pn_keys = "\<lambda>_. 0" and pn_sign = "\<lambda>_. 1"
      and Wa = "\<lambda>_. 0" and Wc = "\<lambda>_. 0" and b = "\<lambda>_. 0" and X = "\<lambda>_. 0" and W = "\<lambda>_. 0"
      and do_grad = 2 and vec_dim = 1 and p = 0 and q = 0
      and loc = "\<lparr>loc_Wk_p = 0, loc_r_p = 0, loc_f_p = 0\<rparr>"
      and stw = "\<lparr>w2v_dWa = (\<lambda>_. 0), w2v_dWc = (\<lambda>_. 0), w2v_db = (\<lambda>_. 0), w2v_L = (\<lambda>_. 0)\<rparr>"
      and st = "\<lparr>nsl_dX = (\<lambda>_. 0), nsl_dW = (\<lambda>_. 0), nsl_db = (\<lambda>_. 0), nsl_L = (\<lambda>_. 0)\<rparr>"]
  by (simp add: Let_def slots_def w2v_pair_def bias_grad_def pair_g_def dot_def)

section \<open>The auto-contrastive kernel does not read the sign matrix\<close>

text \<open>
  C10. Sign-matrix noninterference: two calls of the auto-contrastive kernel (either
  variant) that differ in the argument \<^verbatim>\<open>pn_sign\<close> only leave the same loss matrix and the
  same gradient accumulators \<^verbatim>\<open>dX\<close>, \<^verbatim>\<open>dW\<close>, \<^verbatim>\<open>db\<close>.
\<close>

theorem acl_sign_noninterference:
  "cy_acl_ff_bp0 dsdot sp_size sp_idx pn_size pn_keys pn_sign X W b do_grad vec_dim loc st =
   cy_acl_ff_bp0 dsdot sp_size sp_idx pn_size pn_keys pn_sign' X W b do_grad vec_dim loc st \<and>
   cy_acl_ff_bp1 sdot sp_size sp_idx pn_size pn_keys pn_sign X W b do_grad vec_dim loc st =
   cy_acl_ff_bp1 sdot sp_size sp_idx pn_size pn_keys pn_sign' X W b do_grad vec_dim loc st"
  by (simp add: cy_acl_ff_bp0_def cy_acl_ff_bp1_def)

theorem acl_sign_noninterference_witness:
  "cy_acl_ff_bp0 dot 1 (\<lambda>_. 0) 2 (\<lambda>p. word_of_int p) (\<lambda>_. 1) (\<lambda>_. 0) (\<lambda>_. 1) (\<lambda>_. 0) 1 1
      \<lparr>loc_Wk_p = 0, loc_r_p = 0, loc_f_p = 0\<rparr>
      \<lparr>nsl_dX = (\<lambda>_. 0), nsl_dW = (\<lambda>_. 0), nsl_db = (\<lambda>_. 0), nsl_L = (\<lambda>_. 0)\<rparr> =
   cy_acl_ff_bp0 dot 1 (\<lambda>_. 0) 2 (\<lambda>p. word_of_int p) (\<lambda>_. - 1) (\<lambda>_. 0) (\<lambda>_. 1) (\<lambda>_. 0) 1 1
      \<lparr>loc_Wk_p = 0, loc_r_p = 0, loc_f_p = 0\<rparr>
      \<lparr>nsl_dX = (\<lambda>_. 0), nsl_dW = (\<lambda>_. 0), nsl_db = (\<lambda>_. 0), nsl_L = (\<lambda>_. 0)\<rparr>"
  using acl_sign_noninterference [of dot 1 "\<lambda>_. 0" 2 "\<lambda>p. word_of_int p" "\<lambda>_. 1" "\<lambda>_. 0" "\<lambda>_. 1"
      "\<lambda>_. 0" 1 1 "\<lparr>loc_Wk_p = 0, loc_r_p = 0, loc_f_p = 0\<rparr>"
      "\<lparr>nsl_dX = (\<lambda>_. 0), nsl_dW = (\<lambda>_. 0), nsl_db = (\<lambda>_. 0), nsl_L = (\<lambda>_. 0)\<rparr>" "\<lambda>_. - 1"]
  by blast

section \<open>The sparse adaptive update applies the recurrence to each addressed element\<close>

lemma fold_pointwise:
  assumes "\<And>x s e. elem (f x s) e = (if e = k x then h (elem s e) else elem s e)"
  shows "elem (fold f xs s) e = (h ^^ count_list (map k xs) e) (elem s e)"
proof (induction xs arbitrary: s)
  case Nil
  show ?case by simp
next
  case (Cons x xs)
  show ?case
    by (simp add: Cons.IH assms funpow_swap1)
qed

lemma ag1_elem:
  "ag_elem (cy_ag_update_1d sp_size sp_idx row_idx alpha st) e =
     (ag_rule alpha ^^ count_list (addressed_1d sp_size sp_idx row_idx) e) (ag_elem st e)"
  unfolding cy_ag_update_1d_def for_range_def Let_def addressed_1d_def
  by (rule fold_pointwise)
     (simp add: ag_elem_def ag_rule_def ADA_RHO_def ADA_EPS_def Let_def power2_eq_square)

lemma ag2_elem:
  "ag_elem (cy_ag_update_2d sp_size sp_idx row_idx alpha vec_dim st) e =
     (ag_rule alpha ^^ count_list (addressed_2d sp_size sp_idx row_idx vec_dim) e) (ag_elem st e)"
  unfolding cy_ag_update_2d_def Let_def for_range_nested addressed_2d_def
  by (rule fold_pointwise)
     (simp add: ag_elem_def ag_rule_def ADA_RHO_def ADA_EPS_def Let_def power2_eq_square split_beta)

text \<open>
  C2. Sparse adaptive update: after a call of \<^verbatim>\<open>cy_ag_update_1d\<close> or of
  \<^verbatim>\<open>cy_ag_update_2d\<close>, every element \<open>e\<close> (its moment, parameter and gradient) is the
  result of applying the recurrence \<open>moment = rho*moment + (1 - rho)*grad^2\<close>,
  \<open>param -= alpha*grad/(sqrt(moment) + eps)\<close>, \<open>grad = 0\<close>, with \<open>rho = 0.98\<close> and
  \<open>eps = 0.001\<close>, once for each time the call addresses \<open>e\<close> through
  \<^verbatim>\<open>row_idx[sp_idx[sp_i]]\<close>; an element the call does not address is unchanged. One step
  from moment 0 and gradient \<open>g0\<close> gives the moment \<open>(1 - rho)*g0^2\<close> and the gradient 0,
  and a second step then leaves the parameter as the first step left it.
\<close>

theorem ag_update_recurrence:
  "ag_elem (cy_ag_update_1d sp_size sp_idx row_idx alpha st) e =
     (ag_rule alpha ^^ count_list (addressed_1d sp_size sp_idx row_idx) e) (ag_elem st e) \<and>
   ag_elem (cy_ag_update_2d sp_size sp_idx row_idx alpha vec_dim st) e =
     (ag_rule alpha ^^ count_list (addressed_2d sp_size sp_idx row_idx vec_dim) e) (ag_elem st e) \<and>
   ag_rule alpha (moment, param, grad) =
     (0.98 * moment + (1 - 0.98) * grad\<^sup>2,
      param - alpha * grad / (sqrt (0.98 * moment + (1 - 0.98) * grad\<^sup>2) + 0.001),
      0) \<and>
   fst (ag_rule alpha (0, param, g0)) = (1 - 0.98) * g0\<^sup>2 \<and>
   snd (snd (ag_rule alpha (0, param, g0))) = 0 \<and>
   fst (snd (ag_rule alpha (ag_rule alpha (0, param, g0)))) = fst (snd (ag_rule alpha (0, param, g0)))"
  by (simp add: ag1_elem ag2_elem ag_rule_def Let_def)

theorem ag_update_recurrence_witness:
  "ag_mW (cy_ag_update_1d 1 (\<lambda>_. 0) (\<lambda>_. 3) 1
      \<lparr>ag_W = (\<lambda>_. 1), ag_dW = (\<lambda>_. 2), ag_mW = (\<lambda>_. 0)\<rparr>) 3 = 0.08 \<and>
   ag_dW (cy_ag_update_1d 1 (\<lambda>_. 0) (\<lambda>_. 3) 1
      \<lparr>ag_W = (\<lambda>_. 1), ag_dW = (\<lambda>_. 2), ag_mW = (\<lambda>_. 0)\<rparr>) 3 = 0 \<and>
   ag_W (cy_ag_update_1d 1 (\<lambda>_. 0) (\<lambda>_. 3) 1
      \<lparr>ag_W = (\<lambda>_. 1), ag_dW = (\<lambda>_. 2), ag_mW = (\<lambda>_. 0)\<rparr>) 3 = 1 - 2 / (sqrt 0.08 + 0.001) \<and>
   ag_mW (cy_ag_update_2d 1 (\<lambda>_. 0) (\<lambda>_. 3) 1 2
      \<lparr>ag_W = (\<lambda>_. 1), ag_dW = (\<lambda>_. 2), ag_mW = (\<lambda>_. 0)\<rparr>) 7 = 0.08 \<and>
   ag_dW (cy_ag_update_2d 1 (\<lambda>_. 0) (\<lambda>_. 3) 1 2
      \<lparr>ag_W = (\<lambda>_. 1), ag_dW = (\<lambda>_. 2), ag_mW = (\<lambda>_. 0)\<rparr>) 7 = 0"
  using ag_update_recurrence [where sp_size = 1 and sp_idx = "\<lambda>_. 0" and row_idx = "\<lambda>_. 3"
      and alpha = 1 and vec_dim = 2 and e = 3
      and st = "\<lparr>ag_W = (\<lambda>_. 1), ag_dW = (\<lambda>_. 2), ag_mW = (\<lambda>_. 0)\<rparr>"]
    ag_update_recurrence [where sp_size = 1 and sp_idx = "\<lambda>_. 0" and row_idx = "\<lambda>_. 3"
      and alpha = 1 and vec_dim = 2 and e = 7
      and st = "\<lparr>ag_W = (\<lambda>_. 1), ag_dW = (\<lambda>_. 2), ag_mW = (\<lambda>_. 0)\<rparr>"]
  by (simp add: ag_elem_def addressed_1d_def addressed_2d_def slots_def ag_rule_def Let_def upt_rec)

section \<open>The bootstrap binds the variants by the self-test\<close>





end
